theory Spec2Isabelle
  imports Main
begin

section \<open>JavaScript values\<close>

text \<open>
  The gateway of \<^verbatim>\<open>server.js\<close> moves JSON documents between its clients and two
  providers. A JSON document, once parsed, is a JavaScript value; \<open>JUndefined\<close> is what
  reading a missing property gives. An object is the list of its own properties, each
  name occurring once, and strings are ASCII.

  A number is kept as the text JavaScript prints for it (\<^verbatim>\<open>String(n)\<close>). The source
  looks at a number of a document in three ways only, \<^verbatim>\<open>!n\<close>, \<^verbatim>\<open>===\<close> and a template
  literal, and each is a function of that text: zero, and only zero, prints as \<^verbatim>\<open>0\<close>,
  and two numbers are equal exactly when they print alike.
\<close>

datatype jsval =
    JUndefined
  | JNull
  | JBool bool
  | JNum string
  | JStr string
  | JArr "jsval list"
  | JObj "(string \<times> jsval) list"

text \<open>The test made by \<^verbatim>\<open>if (x)\<close> and \<^verbatim>\<open>!x\<close>.\<close>

fun truthy :: "jsval \<Rightarrow> bool" where
  "truthy JUndefined = False"
| "truthy JNull = False"
| "truthy (JBool b) = b"
| "truthy (JNum p) = (p \<noteq> ''0'' \<and> p \<noteq> ''NaN'')"
| "truthy (JStr s) = (s \<noteq> [])"
| "truthy (JArr xs) = True"
| "truthy (JObj fs) = True"

fun nullish :: "jsval \<Rightarrow> bool" where
  "nullish JUndefined = True"
| "nullish JNull = True"
| "nullish v = False"

text \<open>
  \<^verbatim>\<open>a === b\<close>. Two arrays or two objects are equal only when they are the same
  reference; the values compared in the source come from different documents, so the
  comparison of two arrays or two objects is false.
\<close>

fun strict_eq :: "jsval \<Rightarrow> jsval \<Rightarrow> bool" where
  "strict_eq JUndefined JUndefined = True"
| "strict_eq JNull JNull = True"
| "strict_eq (JBool a) (JBool b) = (a = b)"
| "strict_eq (JNum a) (JNum b) = (a = b \<and> a \<noteq> ''NaN'')"
| "strict_eq (JStr a) (JStr b) = (a = b)"
| "strict_eq a b = False"

subsection \<open>Errors\<close>

text \<open>
  What \<^verbatim>\<open>axios.post\<close> resolves to, or carries in the \<^verbatim>\<open>response\<close> property of the
  error it rejects with when the provider answered with a status outside 2xx.
\<close>

record response =
  status :: nat
  headers :: "(string \<times> string) list"
  data :: jsval

text \<open>
  The values thrown in \<^verbatim>\<open>server.js\<close>: the error of a rejected \<^verbatim>\<open>axios.post\<close> (its
  message, and the response when there was one), an \<^verbatim>\<open>Error\<close> made by the program,
  and the \<^verbatim>\<open>TypeError\<close> of the runtime.
\<close>

datatype js_error =
    AxiosError string "response option"
  | Error string
  | TypeError string

fun error_message :: "js_error \<Rightarrow> string" where
  "error_message (AxiosError m r) = m"
| "error_message (Error m) = m"
| "error_message (TypeError m) = m"

fun error_response :: "js_error \<Rightarrow> response option" where
  "error_response (AxiosError m r) = r"
| "error_response (Error m) = None"
| "error_response (TypeError m) = None"

text \<open>Sequencing of steps that may throw.\<close>

fun and_then :: "js_error + 'a \<Rightarrow> ('a \<Rightarrow> js_error + 'b) \<Rightarrow> js_error + 'b" where
  "and_then (Inl e) f = Inl e"
| "and_then (Inr v) f = f v"

subsection \<open>Conversion to a string, as a template literal does it\<close>

fun join_comma :: "string list \<Rightarrow> string" where
  "join_comma [] = []"
| "join_comma [s] = s"
| "join_comma (s # t # ss) = s @ '','' @ join_comma (t # ss)"

definition cannot_convert :: js_error where
  "cannot_convert = TypeError ''Cannot convert object to primitive value''"

text \<open>
  \<^verbatim>\<open>`${v}`\<close>. An object of a JSON document has no function among its own properties:
  when it has a property \<^verbatim>\<open>toString\<close> of its own the conversion finds nothing to call
  (\<^verbatim>\<open>valueOf\<close> gives the object back) and throws, and otherwise the inherited
  \<^verbatim>\<open>toString\<close> gives \<^verbatim>\<open>[object Object]\<close>. An array is its elements joined by commas,
  \<^verbatim>\<open>null\<close> and \<^verbatim>\<open>undefined\<close> elements giving the empty string; the first element
  that throws ends the conversion.
\<close>

fun ToString :: "jsval \<Rightarrow> js_error + string"
  and join_elements :: "jsval list \<Rightarrow> js_error + string list" where
  "ToString JUndefined = Inr ''undefined''"
| "ToString JNull = Inr ''null''"
| "ToString (JBool b) = Inr (if b then ''true'' else ''false'')"
| "ToString (JNum p) = Inr p"
| "ToString (JStr s) = Inr s"
| "ToString (JArr xs) = and_then (join_elements xs) (\<lambda>ss. Inr (join_comma ss))"
| "ToString (JObj fs) =
     (case map_of fs ''toString'' of None \<Rightarrow> Inr ''[object Object]'' | Some v \<Rightarrow> Inl cannot_convert)"
| "join_elements [] = Inr []"
| "join_elements (x # xs) =
     and_then (if nullish x then Inr [] else ToString x) (\<lambda>s.
     and_then (join_elements xs) (\<lambda>ss. Inr (s # ss)))"

subsection \<open>Property reads and method calls\<close>

text \<open>The message Node gives the \<^verbatim>\<open>TypeError\<close> of a property read on \<^verbatim>\<open>undefined\<close> or
  \<^verbatim>\<open>null\<close>.\<close>

definition cannot_read :: "jsval \<Rightarrow> string \<Rightarrow> js_error" where
  "cannot_read v name =
     TypeError (''Cannot read properties of '' @ (if v = JNull then ''null'' else ''undefined'')
       @ '' (reading '' @ [CHR 0x27] @ name @ [CHR 0x27] @ '')'')"

text \<open>
  \<open>prop_of v name\<close> is \<^verbatim>\<open>v.name\<close> for a value that is neither \<^verbatim>\<open>undefined\<close> nor
  \<^verbatim>\<open>null\<close>, for the property names the source reads (\<^verbatim>\<open>data\<close>, \<^verbatim>\<open>error\<close>,
  \<^verbatim>\<open>message\<close>, \<^verbatim>\<open>choices\<close>, ...): none of them is a property of a string, a number,
  a boolean or an array.
\<close>

fun prop_of :: "jsval \<Rightarrow> string \<Rightarrow> jsval" where
  "prop_of (JObj fs) name = (case map_of fs name of Some v \<Rightarrow> v | None \<Rightarrow> JUndefined)"
| "prop_of v name = JUndefined"

definition get_prop :: "jsval \<Rightarrow> string \<Rightarrow> js_error + jsval" where
  "get_prop v name = (if nullish v then Inl (cannot_read v name) else Inr (prop_of v name))"

text \<open>\<^verbatim>\<open>v[0]\<close>.\<close>

fun index0 :: "jsval \<Rightarrow> js_error + jsval" where
  "index0 JUndefined = Inl (cannot_read JUndefined ''0'')"
| "index0 JNull = Inl (cannot_read JNull ''0'')"
| "index0 (JArr xs) = Inr (case xs of [] \<Rightarrow> JUndefined | x # _ \<Rightarrow> x)"
| "index0 (JStr s) = Inr (case s of [] \<Rightarrow> JUndefined | c # _ \<Rightarrow> JStr [c])"
| "index0 (JObj fs) = Inr (prop_of (JObj fs) ''0'')"
| "index0 v = Inr JUndefined"

fun starts_with :: "string \<Rightarrow> string \<Rightarrow> bool" where
  "starts_with s [] = True"
| "starts_with [] (p # ps) = False"
| "starts_with (c # cs) (p # ps) = (c = p \<and> starts_with cs ps)"

text \<open>\<^verbatim>\<open>String.prototype.includes\<close>: the needle occurs somewhere in the string.\<close>

fun str_includes :: "string \<Rightarrow> string \<Rightarrow> bool" where
  "str_includes [] needle = (needle = [])"
| "str_includes (c # cs) needle = (starts_with (c # cs) needle \<or> str_includes cs needle)"

text \<open>
  \<^verbatim>\<open>m.includes(needle)\<close> on a value read from a JSON document: a string searches for
  the substring, an array for an element equal to the needle, and every other value has
  no function of that name.
\<close>

fun method_includes :: "jsval \<Rightarrow> string \<Rightarrow> js_error + jsval" where
  "method_includes (JStr s) needle = Inr (JBool (str_includes s needle))"
| "method_includes (JArr xs) needle = Inr (JBool (list_ex (\<lambda>x. strict_eq x (JStr needle)) xs))"
| "method_includes JUndefined needle = Inl (cannot_read JUndefined ''includes'')"
| "method_includes JNull needle = Inl (cannot_read JNull ''includes'')"
| "method_includes v needle =
     Inl (TypeError ''error.response.data?.error?.message.includes is not a function'')"

text \<open>\<^verbatim>\<open>String.prototype.trim\<close> on an ASCII string: tab, line feed, vertical tab, form
  feed, carriage return and space are removed from both ends.\<close>

definition is_space :: "char \<Rightarrow> bool" where
  "is_space c = (of_char c \<in> {9, 10, 11, 12, 13, 32 :: nat})"

definition trim :: "string \<Rightarrow> string" where
  "trim s = rev (dropWhile is_space (rev (dropWhile is_space s)))"

text \<open>\<^verbatim>\<open>c.trim()\<close> on a value read from a JSON document.\<close>

fun method_trim :: "jsval \<Rightarrow> js_error + jsval" where
  "method_trim (JStr s) = Inr (JStr (trim s))"
| "method_trim JUndefined = Inl (cannot_read JUndefined ''trim'')"
| "method_trim JNull = Inl (cannot_read JNull ''trim'')"
| "method_trim v =
     Inl (TypeError ''response.data.choices[0].message.content.trim is not a function'')"

subsection \<open>What a client receives\<close>

text \<open>
  \<^verbatim>\<open>res.json(v)\<close> sends \<^verbatim>\<open>JSON.stringify(v)\<close>, and the client reads the document back.
  A property whose value is \<^verbatim>\<open>undefined\<close> is left out, an \<^verbatim>\<open>undefined\<close> element of an
  array becomes \<^verbatim>\<open>null\<close>, and so does a number that is not finite. \<open>JUndefined\<close> at
  the top is a response without a document.
\<close>

fun serialize :: "jsval \<Rightarrow> jsval" where
  "serialize (JObj fs) =
     JObj (map (\<lambda>(k, v). (k, serialize v)) (filter (\<lambda>(k, v). v \<noteq> JUndefined) fs))"
| "serialize (JArr xs) = JArr (map (\<lambda>x. if x = JUndefined then JNull else serialize x) xs)"
| "serialize (JNum p) = (if p \<in> {''Infinity'', ''-Infinity'', ''NaN''} then JNull else JNum p)"
| "serialize v = v"


section \<open>The world around the handlers\<close>

text \<open>
  A handler reads the clock, reads and writes the cache, publishes status events, posts
  to a provider and waits. All of it is state of one \<open>world\<close>, passed through every
  operation; \<open>trace\<close> lists the effects in the order they happen. Requests are served
  one at a time, each to its response: the interleaving of two handlers at their
  \<^verbatim>\<open>await\<close>s is not part of the model.
\<close>

record chat_message =
  role :: string
  content :: string

text \<open>
  The bodies posted by the source, each an object literal there: \<^verbatim>\<open>{q}\<close>,
  \<^verbatim>\<open>{q, source, target, format}\<close> and
  \<^verbatim>\<open>{messages, max_tokens, temperature, top_p}\<close>, the last with \<^verbatim>\<open>temperature\<close> and
  \<^verbatim>\<open>top_p\<close> as they are printed in the document sent.
\<close>

datatype payload =
    DetectBody jsval
  | TranslateBody jsval jsval jsval string
  | ChatBody "chat_message list" nat string "string option"

text \<open>
  A number the retry policy computes, as the expression that computes it: a literal of
  the source, a header value used as a number, a product, a quotient. The value of the
  expression in the floating-point arithmetic of JavaScript is not computed here.
\<close>

datatype js_number =
    Literal nat
  | FromString string
  | Times js_number js_number
  | Divide js_number js_number

datatype effect =
    Emit string string
  | CacheGet string
  | CacheSet string jsval
  | Post string payload "(string \<times> jsval) list"
  | Sleep js_number

datatype outcome = Resolved response | Rejected js_error

text \<open>
  The providers: the \<open>n\<close>-th \<^verbatim>\<open>axios.post\<close> of the process ends as \<open>fst (up n)\<close>, and
  it ends \<open>snd (up n)\<close> milliseconds after the effect before it ended. That time
  includes the wait of the retry policy when one precedes the call: the clock of the
  model moves with the calls only, and how long the runtime makes a wait last is part
  of what \<open>up\<close> says.
\<close>

type_synonym upstream = "nat \<Rightarrow> outcome \<times> nat"

record world =
  clock :: nat
  cache :: "string \<Rightarrow> (jsval \<times> nat) option"
  hits :: "string \<Rightarrow> (nat \<times> nat) option"
  next_slot :: nat
  trace :: "effect list"
  calls :: nat

definition axios_post ::
  "upstream \<Rightarrow> string \<Rightarrow> payload \<Rightarrow> (string \<times> jsval) list \<Rightarrow> world \<Rightarrow> outcome \<times> world" where
  "axios_post up url body hs w =
     (fst (up (calls w)),
      w\<lparr>clock := clock w + snd (up (calls w)),
        trace := trace w @ [Post url body hs],
        calls := calls w + 1\<rparr>)"

text \<open>\<^verbatim>\<open>io.emit('status', { action, message })\<close>.\<close>

definition io_emit :: "string \<Rightarrow> string \<Rightarrow> world \<Rightarrow> world" where
  "io_emit action message w = w\<lparr>trace := trace w @ [Emit action message]\<rparr>"

subsection \<open>The cache\<close>

text \<open>\<^verbatim>\<open>new NodeCache({ stdTTL: 3600 })\<close>: the time to live, in seconds.\<close>

definition stdTTL :: nat where
  "stdTTL = 3600"

text \<open>
  Modelled from the spec: the class \<^verbatim>\<open>NodeCache\<close> of the package node-cache, which
  \<^verbatim>\<open>server.js\<close> only constructs and calls. An entry is a value and its expiry, the time
  of the \<^verbatim>\<open>set\<close> plus the time to live; \<^verbatim>\<open>get\<close> reports a miss (\<^verbatim>\<open>undefined\<close>) for a
  key never set and for an entry read strictly after its expiry. Times are milliseconds.
\<close>

definition NodeCache_set ::
  "nat \<Rightarrow> string \<Rightarrow> jsval \<Rightarrow> (string \<Rightarrow> (jsval \<times> nat) option) \<Rightarrow> (string \<Rightarrow> (jsval \<times> nat) option)" where
  "NodeCache_set now key v c = c(key \<mapsto> (v, now + stdTTL * 1000))"

text \<open>
  Modelled from the spec: \<^verbatim>\<open>get\<close> of the same class, at time \<open>now\<close>: a cache read
  after expiry returns a miss.
\<close>

definition NodeCache_get :: "nat \<Rightarrow> string \<Rightarrow> (string \<Rightarrow> (jsval \<times> nat) option) \<Rightarrow> jsval" where
  "NodeCache_get now key c =
     (case c key of
        None \<Rightarrow> JUndefined
      | Some (v, expiry) \<Rightarrow> if expiry < now then JUndefined else v)"

text \<open>\<^verbatim>\<open>cache.set(key, v)\<close> and \<^verbatim>\<open>cache.get(key)\<close> at the time of the world.\<close>

definition cache_set :: "string \<Rightarrow> jsval \<Rightarrow> world \<Rightarrow> world" where
  "cache_set key v w =
     w\<lparr>cache := NodeCache_set (clock w) key v (cache w), trace := trace w @ [CacheSet key v]\<rparr>"

definition cache_get :: "string \<Rightarrow> world \<Rightarrow> jsval \<times> world" where
  "cache_get key w = (NodeCache_get (clock w) key (cache w), w\<lparr>trace := trace w @ [CacheGet key]\<rparr>)"

subsection \<open>Waiting\<close>

text \<open>
  \<^verbatim>\<open>await new Promise(resolve => setTimeout(resolve, delay))\<close>: the trace keeps the delay
  the program asked for. The time the wait takes is counted with the call that follows
  it.
\<close>

definition setTimeout :: "js_number \<Rightarrow> world \<Rightarrow> world" where
  "setTimeout delay w = w\<lparr>trace := trace w @ [Sleep delay]\<rparr>"

section \<open>The retry policy\<close>

text \<open>
  \<^verbatim>\<open>error.response.data?.error?.message.includes('Quota exceeded')\<close>. The two \<^verbatim>\<open>?.\<close>
  end the whole chain with \<^verbatim>\<open>undefined\<close> when \<^verbatim>\<open>data\<close> or \<^verbatim>\<open>data.error\<close> is
  \<^verbatim>\<open>undefined\<close> or \<^verbatim>\<open>null\<close>; nothing guards the call of \<^verbatim>\<open>includes\<close> on
  \<^verbatim>\<open>message\<close>.
\<close>

definition quota_exceeded :: "jsval \<Rightarrow> js_error + jsval" where
  "quota_exceeded d =
     (if nullish d then Inr JUndefined
      else if nullish (prop_of d ''error'') then Inr JUndefined
      else method_includes (prop_of (prop_of d ''error'') ''message'') ''Quota exceeded'')"

text \<open>
  \<^verbatim>\<open>error.response.headers['retry-after'] || initialDelay / 1000\<close>: the header when the
  response has one that is not the empty string, used as a number by the product that
  follows.
\<close>

definition retryAfter :: "response \<Rightarrow> js_number \<Rightarrow> js_number" where
  "retryAfter r initialDelay =
     (case map_of (headers r) ''retry-after'' of
        None \<Rightarrow> Divide initialDelay (Literal 1000)
      | Some s \<Rightarrow> if s = [] then Divide initialDelay (Literal 1000) else FromString s)"

text \<open>
  \<^verbatim>\<open>retryRequest(url, data, headers, retries, initialDelay)\<close>, lines 49 to 66. The
  result is the response the promise resolves to, or the value it rejects with. The
  delay of the wait is \<^verbatim>\<open>retryAfter * 1000\<close>, and the next round gets
  \<^verbatim>\<open>initialDelay * 2\<close>. The \<^verbatim>\<open>console.log\<close> before the wait is not modelled.
\<close>

function retryRequest ::
  "upstream \<Rightarrow> string \<Rightarrow> payload \<Rightarrow> (string \<times> jsval) list \<Rightarrow> int \<Rightarrow> js_number \<Rightarrow> world
     \<Rightarrow> (js_error + response) \<times> world" where
  "retryRequest up url body hs retries initialDelay w =
     (case axios_post up url body hs w of
        (Resolved response, w1) \<Rightarrow> (Inr response, w1)
      | (Rejected error, w1) \<Rightarrow>
          (case error_response error of
             None \<Rightarrow> (Inl error, w1)
           | Some r \<Rightarrow>
               if status r = 429 \<and> retries > 0 then
                 (case quota_exceeded (data r) of
                    Inl thrown \<Rightarrow> (Inl thrown, w1)
                  | Inr q \<Rightarrow>
                      if truthy q
                      then (Inl (Error ''API quota exhausted. Please check your subscription.''), w1)
                      else retryRequest up url body hs (retries - 1) (Times initialDelay (Literal 2))
                             (setTimeout (Times (retryAfter r initialDelay) (Literal 1000)) w1))
               else (Inl error, w1)))"
  by pat_completeness auto
termination
  by (relation "measure (\<lambda>(up, url, body, hs, retries, initialDelay, w). nat retries)") auto

declare retryRequest.simps [simp del]

text \<open>The defaults of the parameter list: \<^verbatim>\<open>retries = 5, initialDelay = 2000\<close>.\<close>

definition retryRequest_default ::
  "upstream \<Rightarrow> string \<Rightarrow> payload \<Rightarrow> (string \<times> jsval) list \<Rightarrow> world \<Rightarrow> (js_error + response) \<times> world" where
  "retryRequest_default up url body hs w = retryRequest up url body hs 5 (Literal 2000) w"


section \<open>The server\<close>

subsection \<open>Configuration\<close>

text \<open>The three variables \<^verbatim>\<open>server.js\<close> reads from \<^verbatim>\<open>process.env\<close>; each may be unset.\<close>

record process_env =
  env_GOOGLE_TRANSLATION_API_KEY :: "string option"
  env_AZURE_AI_API_KEY :: "string option"
  env_AZURE_AI_ENDPOINT :: "string option"

fun env_value :: "string option \<Rightarrow> jsval" where
  "env_value None = JUndefined"
| "env_value (Some s) = JStr s"

text \<open>\<^verbatim>\<open>`${x}`\<close> for a value of the environment, a string or \<^verbatim>\<open>undefined\<close>.\<close>

fun env_text :: "string option \<Rightarrow> string" where
  "env_text None = ''undefined''"
| "env_text (Some s) = s"

definition GOOGLE_TRANSLATION_API_KEY :: "process_env \<Rightarrow> string option" where
  "GOOGLE_TRANSLATION_API_KEY env = env_GOOGLE_TRANSLATION_API_KEY env"

definition AZURE_AI_API_KEY :: "process_env \<Rightarrow> jsval" where
  "AZURE_AI_API_KEY env = env_value (env_AZURE_AI_API_KEY env)"

text \<open>\<^verbatim>\<open>process.env.AZURE_AI_ENDPOINT || 'https://gendem.cognitiveservices.azure.com/'\<close>.\<close>

definition AZURE_AI_ENDPOINT :: "process_env \<Rightarrow> string" where
  "AZURE_AI_ENDPOINT env =
     (if truthy (env_value (env_AZURE_AI_ENDPOINT env))
      then env_text (env_AZURE_AI_ENDPOINT env)
      else ''https://gendem.cognitiveservices.azure.com/'')"

text \<open>
  The state of the process once line 235 has run: nothing cached, nobody counted, no
  call made. Nothing on the way there reads the keys.
\<close>

definition initial_world :: world where
  "initial_world =
     \<lparr>clock = 0, cache = (\<lambda>key. None), hits = (\<lambda>key. None), next_slot = 0, trace = [], calls = 0\<rparr>"

subsection \<open>The scheduler of provider calls\<close>

definition minTime :: nat where
  "minTime = 1000"

text \<open>
  Modelled from the spec: \<^verbatim>\<open>limiter.schedule\<close> of the package bottleneck, built with
  \<^verbatim>\<open>maxConcurrent: 1, minTime: 1000\<close>. A job starts no earlier than \<open>minTime\<close>
  milliseconds after the start of the one before it, and its result is the result of
  the call.
\<close>

definition limiter_schedule :: "(world \<Rightarrow> 'a \<times> world) \<Rightarrow> world \<Rightarrow> 'a \<times> world" where
  "limiter_schedule job w =
     job (w\<lparr>clock := max (clock w) (next_slot w), next_slot := max (clock w) (next_slot w) + minTime\<rparr>)"

subsection \<open>The request quota\<close>

record http_response =
  statusCode :: nat
  json :: jsval

text \<open>The options of \<^verbatim>\<open>rateLimit\<close>, lines 37 to 46.\<close>

definition windowMs :: nat where
  "windowMs = 60 * 1000"

definition max_requests :: nat where
  "max_requests = 15"

definition limit_message :: jsval where
  "limit_message =
     JObj [(''error'', JStr ''Too many requests, please try again after a minute.''),
           (''details'', JStr ''API rate limits apply.'')]"

text \<open>
  Modelled from the spec: the middleware made by \<^verbatim>\<open>rateLimit\<close> of the package
  express-rate-limit, with its memory store. The store keeps, for each client address,
  the number of requests counted in the client's current window and the time the window
  ends; the first request of a client, or the first after its window ended, opens a
  window of \<open>windowMs\<close>. Every request is counted, and one that takes the count above
  \<open>max_requests\<close> is answered 429 with the configured message and never reaches the
  handler.
\<close>

definition increment :: "nat \<Rightarrow> string \<Rightarrow> (string \<Rightarrow> (nat \<times> nat) option) \<Rightarrow> nat \<times> nat" where
  "increment now key store =
     (case store key of
        None \<Rightarrow> (1, now + windowMs)
      | Some (n, resetTime) \<Rightarrow> if resetTime \<le> now then (1, now + windowMs) else (n + 1, resetTime))"

text \<open>
  Modelled from the spec: the middleware itself, on the address of the client. It
  counts the request at the time of the world and answers 429 with the message when the
  count is above the maximum.
\<close>

definition apiLimiter :: "string \<Rightarrow> world \<Rightarrow> http_response option \<times> world" where
  "apiLimiter ip w =
     (if max_requests < fst (increment (clock w) ip (hits w))
      then (Some \<lparr>statusCode = 429, json = limit_message\<rparr>,
            w\<lparr>hits := (hits w)(ip \<mapsto> increment (clock w) ip (hits w))\<rparr>)
      else (None, w\<lparr>hits := (hits w)(ip \<mapsto> increment (clock w) ip (hits w))\<rparr>))"

subsection \<open>POST /translate\<close>

text \<open>\<^verbatim>\<open>res.status(code).json(v)\<close>, as the client receives it; \<^verbatim>\<open>res.json(v)\<close> is the same
  with status 200.\<close>

definition respond :: "nat \<Rightarrow> jsval \<Rightarrow> http_response" where
  "respond code v = \<lparr>statusCode = code, json = serialize v\<rparr>"

text \<open>
  \<^verbatim>\<open>const { name, ... } = req.body\<close> throws when the body is \<^verbatim>\<open>undefined\<close> or
  \<^verbatim>\<open>null\<close>; this is the error, for the first name of the pattern.
\<close>

definition cannot_destructure :: "string \<Rightarrow> jsval \<Rightarrow> js_error" where
  "cannot_destructure name v =
     TypeError (''Cannot destructure property '' @ [CHR 0x27] @ name @ [CHR 0x27] @ '' of ''
       @ [CHR 0x27] @ ''req.body'' @ [CHR 0x27] @ '' as it is ''
       @ (if v = JNull then ''null'' else ''undefined'') @ ''.'')"

definition detectUrl :: "process_env \<Rightarrow> string" where
  "detectUrl env =
     ''https://translation.googleapis.com/language/translate/v2/detect?key=''
       @ env_text (GOOGLE_TRANSLATION_API_KEY env)"

definition translateUrl :: "process_env \<Rightarrow> string" where
  "translateUrl env =
     ''https://translation.googleapis.com/language/translate/v2?key=''
       @ env_text (GOOGLE_TRANSLATION_API_KEY env)"

text \<open>\<^verbatim>\<open>detectResponse.data.data.detections[0][0].language\<close>, where the first
  \<^verbatim>\<open>data\<close> is the body of the response.\<close>

definition detected_language :: "jsval \<Rightarrow> js_error + jsval" where
  "detected_language d =
     and_then (get_prop d ''data'') (\<lambda>a.
     and_then (get_prop a ''detections'') (\<lambda>b.
     and_then (index0 b) (\<lambda>c.
     and_then (index0 c) (\<lambda>e. get_prop e ''language''))))"

text \<open>\<^verbatim>\<open>translateResponse.data.data.translations[0].translatedText\<close>.\<close>

definition translated_text :: "jsval \<Rightarrow> js_error + jsval" where
  "translated_text d =
     and_then (get_prop d ''data'') (\<lambda>a.
     and_then (get_prop a ''translations'') (\<lambda>b.
     and_then (index0 b) (\<lambda>c. get_prop c ''translatedText'')))"

text \<open>The \<^verbatim>\<open>try\<close> block of the handler, lines 90 to 112: the response it sends, or what
  it throws.\<close>

definition translate_try ::
  "process_env \<Rightarrow> upstream \<Rightarrow> jsval \<Rightarrow> jsval \<Rightarrow> string \<Rightarrow> world \<Rightarrow> (js_error + http_response) \<times> world" where
  "translate_try env up text targetLanguage cacheKey w =
     (case axios_post up (detectUrl env) (DetectBody text) [] w of
        (Rejected error, w1) \<Rightarrow> (Inl error, w1)
      | (Resolved detectResponse, w1) \<Rightarrow>
          (case detected_language (data detectResponse) of
             Inl error \<Rightarrow> (Inl error, w1)
           | Inr detectedLanguage \<Rightarrow>
               if strict_eq detectedLanguage targetLanguage then
                 (Inr (respond 200
                    (JObj [(''detectedLanguage'', detectedLanguage), (''translatedText'', text),
                           (''message'', JStr ''Same language detected.'')])),
                  io_emit ''translate'' ''Translation complete.''
                    (cache_set cacheKey
                       (JObj [(''detectedLanguage'', detectedLanguage), (''translatedText'', text),
                              (''message'', JStr ''Same language detected.'')]) w1))
               else
                 (case axios_post up (translateUrl env)
                         (TranslateBody text detectedLanguage targetLanguage ''text'') [] w1 of
                    (Rejected error, w2) \<Rightarrow> (Inl error, w2)
                  | (Resolved translateResponse, w2) \<Rightarrow>
                      (case translated_text (data translateResponse) of
                         Inl error \<Rightarrow> (Inl error, w2)
                       | Inr translatedText \<Rightarrow>
                           (Inr (respond 200
                              (JObj [(''detectedLanguage'', detectedLanguage),
                                     (''translatedText'', translatedText)])),
                            io_emit ''translate'' ''Translation complete.''
                              (cache_set cacheKey
                                 (JObj [(''detectedLanguage'', detectedLanguage),
                                        (''translatedText'', translatedText)]) w2))))))"

text \<open>\<^verbatim>\<open>`translate:${text}:${targetLanguage}`\<close>, which throws when a conversion does.\<close>

definition translate_key :: "jsval \<Rightarrow> jsval \<Rightarrow> js_error + string" where
  "translate_key text targetLanguage =
     and_then (ToString text) (\<lambda>a.
     and_then (ToString targetLanguage) (\<lambda>b. Inr (''translate:'' @ a @ '':'' @ b)))"

text \<open>
  The handler of \<^verbatim>\<open>POST /translate\<close>, lines 74 to 117, on \<^verbatim>\<open>req.body\<close>. The result is
  the response the handler sends, or what it throws outside its \<^verbatim>\<open>try\<close>: the
  destructuring of line 75 and the template of line 82 can throw, and the handler then
  sends nothing itself.
\<close>

definition translate ::
  "process_env \<Rightarrow> upstream \<Rightarrow> jsval \<Rightarrow> world \<Rightarrow> (js_error + http_response) \<times> world" where
  "translate env up req_body w =
     (if nullish req_body then (Inl (cannot_destructure ''text'' req_body), w)
      else if \<not> truthy (prop_of req_body ''text'') \<or> \<not> truthy (prop_of req_body ''targetLanguage'')
      then (Inr (respond 400 (JObj [(''error'', JStr ''Text and target language are required.'')])), w)
      else
        (case translate_key (prop_of req_body ''text'') (prop_of req_body ''targetLanguage'') of
           Inl thrown \<Rightarrow> (Inl thrown, io_emit ''translate'' ''Translating...'' w)
         | Inr cacheKey \<Rightarrow>
             (case cache_get cacheKey (io_emit ''translate'' ''Translating...'' w) of
                (cachedResult, w2) \<Rightarrow>
                  if truthy cachedResult
                  then (Inr (respond 200 cachedResult),
                        io_emit ''translate'' ''Translation complete (cached).'' w2)
                  else
                    (case translate_try env up (prop_of req_body ''text'')
                            (prop_of req_body ''targetLanguage'') cacheKey w2 of
                       (Inr sent, w3) \<Rightarrow> (Inr sent, w3)
                     | (Inl error, w3) \<Rightarrow>
                         (Inr (respond 500
                            (JObj [(''error'', JStr ''Translation failed''),
                                   (''details'', JStr (error_message error))])),
                          io_emit ''translate'' ''Translation failed.'' w3)))))"

subsection \<open>POST /summarize and POST /analyze-symptoms\<close>

definition completionsUrl :: "process_env \<Rightarrow> string" where
  "completionsUrl env =
     AZURE_AI_ENDPOINT env
       @ ''/openai/deployments/gpt-4o-mini/chat/completions?api-version=2024-12-01-preview''"

text \<open>The headers given to \<^verbatim>\<open>retryRequest\<close>; the key is whatever the environment
  held, \<^verbatim>\<open>undefined\<close> included.\<close>

definition azure_headers :: "process_env \<Rightarrow> (string \<times> jsval) list" where
  "azure_headers env =
     [(''Content-Type'', JStr ''application/json''), (''api-key'', AZURE_AI_API_KEY env)]"

definition summarize_prompt :: string where
  "summarize_prompt =
     ''You are an educational assistant. Summarize the provided text in simple language (up to 30 words). ''
       @ ''Do not alter the meaning. Ensure clarity and conciseness.''"

definition symptoms_prompt :: string where
  "symptoms_prompt =
     ''You are an educational health assistant, not a doctor. Suggest possible conditions in 30 words or less. ''
       @ ''Suggest common over-the-counter medications or remedies in 20 words or less, if applicable. ''
       @ ''Do not diagnose or prescribe. For serious symptoms (e.g., chest pain), urge immediate medical attention. ''
       @ ''Include: '' @ [CHR 0x22]
       @ ''This is not a medical diagnosis or prescription. All suggestions must be verified by a healthcare professional.''
       @ [CHR 0x22]"

text \<open>The two bodies, on the text \<^verbatim>\<open>${text}\<close> and \<^verbatim>\<open>${symptoms}\<close> of the user message.\<close>

definition summarize_body :: "string \<Rightarrow> payload" where
  "summarize_body text =
     ChatBody [\<lparr>role = ''system'', content = summarize_prompt\<rparr>,
               \<lparr>role = ''user'', content = ''Text: '' @ text\<rparr>]
       150 ''0.7'' (Some ''1'')"

definition symptoms_body :: "string \<Rightarrow> payload" where
  "symptoms_body symptoms =
     ChatBody [\<lparr>role = ''system'', content = symptoms_prompt\<rparr>,
               \<lparr>role = ''user'', content = ''Symptoms: '' @ symptoms\<rparr>]
       150 ''0.7'' None"

text \<open>\<^verbatim>\<open>response.data.choices[0].message.content.trim()\<close>.\<close>

definition completion_text :: "jsval \<Rightarrow> js_error + jsval" where
  "completion_text d =
     and_then (get_prop d ''choices'') (\<lambda>a.
     and_then (index0 a) (\<lambda>b.
     and_then (get_prop b ''message'') (\<lambda>c.
     and_then (get_prop c ''content'') method_trim)))"

text \<open>
  The \<^verbatim>\<open>try\<close> block of the summarize handler, lines 141 to 168. The scheduled job
  builds the body, template included, and calls \<^verbatim>\<open>retryRequest\<close> with the defaults.
\<close>

definition summarize_try ::
  "process_env \<Rightarrow> upstream \<Rightarrow> jsval \<Rightarrow> string \<Rightarrow> world \<Rightarrow> (js_error + http_response) \<times> world" where
  "summarize_try env up text cacheKey w =
     (case limiter_schedule
             (\<lambda>v. case ToString text of
                     Inl thrown \<Rightarrow> (Inl thrown, v)
                   | Inr t \<Rightarrow>
                       retryRequest_default up (completionsUrl env) (summarize_body t)
                         (azure_headers env) v) w of
        (Inl error, w1) \<Rightarrow> (Inl error, w1)
      | (Inr response, w1) \<Rightarrow>
          (case completion_text (data response) of
             Inl error \<Rightarrow> (Inl error, w1)
           | Inr summary \<Rightarrow>
               (Inr (respond 200 (JObj [(''summary'', summary)])),
                io_emit ''summarize'' ''Summarization complete.'' (cache_set cacheKey summary w1))))"

text \<open>\<^verbatim>\<open>`summarize:${text}`\<close> and \<^verbatim>\<open>`symptoms:${symptoms}`\<close>.\<close>

definition summarize_key :: "jsval \<Rightarrow> js_error + string" where
  "summarize_key text = and_then (ToString text) (\<lambda>a. Inr (''summarize:'' @ a))"

definition symptoms_key :: "jsval \<Rightarrow> js_error + string" where
  "symptoms_key symptoms = and_then (ToString symptoms) (\<lambda>a. Inr (''symptoms:'' @ a))"

text \<open>The handler of \<^verbatim>\<open>POST /summarize\<close>, lines 120 to 173; it throws where the
  destructuring of line 121 or the template of line 128 does.\<close>

definition summarize ::
  "process_env \<Rightarrow> upstream \<Rightarrow> jsval \<Rightarrow> world \<Rightarrow> (js_error + http_response) \<times> world" where
  "summarize env up req_body w =
     (if nullish req_body then (Inl (cannot_destructure ''text'' req_body), w)
      else if \<not> truthy (prop_of req_body ''text'')
      then (Inr (respond 400 (JObj [(''error'', JStr ''Text is required.'')])), w)
      else
        (case summarize_key (prop_of req_body ''text'') of
           Inl thrown \<Rightarrow> (Inl thrown, io_emit ''summarize'' ''Summarizing...'' w)
         | Inr cacheKey \<Rightarrow>
             (case cache_get cacheKey (io_emit ''summarize'' ''Summarizing...'' w) of
                (cachedResult, w2) \<Rightarrow>
                  if truthy cachedResult
                  then (Inr (respond 200 (JObj [(''summary'', cachedResult)])),
                        io_emit ''summarize'' ''Summarization complete (cached).'' w2)
                  else if \<not> truthy (AZURE_AI_API_KEY env)
                  then (Inr (respond 500
                          (JObj [(''error'',
                             JStr ''API key not found. Set the AZURE_OPENAI_API_KEY environment variable.'')])),
                        io_emit ''summarize'' ''Summarization failed.'' w2)
                  else
                    (case summarize_try env up (prop_of req_body ''text'') cacheKey w2 of
                       (Inr sent, w3) \<Rightarrow> (Inr sent, w3)
                     | (Inl error, w3) \<Rightarrow>
                         (Inr (respond 500
                            (JObj [(''error'', JStr ''Summarization failed''),
                                   (''details'', JStr (error_message error))])),
                          io_emit ''summarize'' ''Summarization failed.'' w3)))))"

text \<open>The \<^verbatim>\<open>try\<close> block of the symptoms handler, lines 192 to 220.\<close>

definition analyze_try ::
  "process_env \<Rightarrow> upstream \<Rightarrow> jsval \<Rightarrow> string \<Rightarrow> world \<Rightarrow> (js_error + http_response) \<times> world" where
  "analyze_try env up symptoms cacheKey w =
     (case limiter_schedule
             (\<lambda>v. case ToString symptoms of
                     Inl thrown \<Rightarrow> (Inl thrown, v)
                   | Inr t \<Rightarrow>
                       retryRequest_default up (completionsUrl env) (symptoms_body t)
                         (azure_headers env) v) w of
        (Inl error, w1) \<Rightarrow> (Inl error, w1)
      | (Inr response, w1) \<Rightarrow>
          (case completion_text (data response) of
             Inl error \<Rightarrow> (Inl error, w1)
           | Inr analysis \<Rightarrow>
               (Inr (respond 200 (JObj [(''analysis'', analysis)])),
                io_emit ''symptoms'' ''Analysis complete.'' (cache_set cacheKey analysis w1))))"

text \<open>The handler of \<^verbatim>\<open>POST /analyze-symptoms\<close>, lines 176 to 225; it throws where the
  destructuring of line 177 or the template of line 184 does. Unlike the summarize
  handler it does not look at the key before it calls the provider.\<close>

definition analyze_symptoms ::
  "process_env \<Rightarrow> upstream \<Rightarrow> jsval \<Rightarrow> world \<Rightarrow> (js_error + http_response) \<times> world" where
  "analyze_symptoms env up req_body w =
     (if nullish req_body then (Inl (cannot_destructure ''symptoms'' req_body), w)
      else if \<not> truthy (prop_of req_body ''symptoms'')
      then (Inr (respond 400 (JObj [(''error'', JStr ''Symptoms are required.'')])), w)
      else
        (case symptoms_key (prop_of req_body ''symptoms'') of
           Inl thrown \<Rightarrow> (Inl thrown, io_emit ''symptoms'' ''Analyzing symptoms...'' w)
         | Inr cacheKey \<Rightarrow>
             (case cache_get cacheKey (io_emit ''symptoms'' ''Analyzing symptoms...'' w) of
                (cachedResult, w2) \<Rightarrow>
                  if truthy cachedResult
                  then (Inr (respond 200 (JObj [(''analysis'', cachedResult)])),
                        io_emit ''symptoms'' ''Analysis complete (cached).'' w2)
                  else
                    (case analyze_try env up (prop_of req_body ''symptoms'') cacheKey w2 of
                       (Inr sent, w3) \<Rightarrow> (Inr sent, w3)
                     | (Inl error, w3) \<Rightarrow>
                         (Inr (respond 500
                            (JObj [(''error'', JStr ''Symptom analysis failed''),
                                   (''details'', JStr (error_message error))])),
                          io_emit ''symptoms'' ''Analysis failed.'' w3)))))"

subsection \<open>Routing\<close>

datatype route = Translate | Summarize | AnalyzeSymptoms

text \<open>A request: when it arrives, the address of its client, the route and
  \<^verbatim>\<open>req.body\<close> as the body parser left it.\<close>

record request =
  arrival :: nat
  client :: string
  path :: route
  parsed :: jsval

text \<open>
  \<^verbatim>\<open>app.post(route, apiLimiter, handler)\<close>: the three routes are registered with the one
  middleware \<^verbatim>\<open>apiLimiter\<close>, so its store is the same for all of them, and the handler
  runs only when the middleware lets the request through. The clock of the world is set
  to the arrival of the request. The result is the response sent by the middleware or
  by the handler, or what the handler throws; what the framework does with a handler
  that throws is not modelled.
\<close>

definition handler ::
  "route \<Rightarrow> process_env \<Rightarrow> upstream \<Rightarrow> jsval \<Rightarrow> world \<Rightarrow> (js_error + http_response) \<times> world" where
  "handler r = (case r of Translate \<Rightarrow> translate | Summarize \<Rightarrow> summarize | AnalyzeSymptoms \<Rightarrow> analyze_symptoms)"

definition serve ::
  "process_env \<Rightarrow> upstream \<Rightarrow> request \<Rightarrow> world \<Rightarrow> (js_error + http_response) \<times> world" where
  "serve env up req w =
     (case apiLimiter (client req) (w\<lparr>clock := arrival req\<rparr>) of
        (Some limited, w1) \<Rightarrow> (Inr limited, w1)
      | (None, w1) \<Rightarrow> handler (path req) env up (parsed req) w1)"

text \<open>The requests of a run, served one after the other. After a handler that throws,
  the run goes on with the next request, as the process does under a framework that
  catches what a handler throws.\<close>

fun serve_all ::
  "process_env \<Rightarrow> upstream \<Rightarrow> request list \<Rightarrow> world \<Rightarrow> (js_error + http_response) list \<times> world" where
  "serve_all env up [] w = ([], w)"
| "serve_all env up (req # reqs) w =
     (case serve env up req w of
        (sent, w1) \<Rightarrow> (case serve_all env up reqs w1 of (rest, w2) \<Rightarrow> (sent # rest, w2)))"


section \<open>Vocabulary of the properties\<close>

text \<open>
  A body whose error message indicates quota exhaustion: \<^verbatim>\<open>data.error.message\<close> is a
  string in which \<^verbatim>\<open>Quota exceeded\<close> occurs.
\<close>

definition quota_message :: "jsval \<Rightarrow> bool" where
  "quota_message d =
     (case prop_of (prop_of d ''error'') ''message'' of
        JStr s \<Rightarrow> str_includes s ''Quota exceeded''
      | _ \<Rightarrow> False)"

text \<open>
  An outcome after which \<^verbatim>\<open>retryRequest\<close> tries again while retries remain: a rejection
  with status 429 whose quota test neither throws nor holds.
\<close>

definition retried :: "outcome \<Rightarrow> bool" where
  "retried out =
     (case out of
        Resolved r \<Rightarrow> False
      | Rejected e \<Rightarrow>
          (case error_response e of
             None \<Rightarrow> False
           | Some r \<Rightarrow>
               status r = 429 \<and>
               (case quota_exceeded (data r) of Inl thrown \<Rightarrow> False | Inr q \<Rightarrow> \<not> truthy q)))"

text \<open>The provider calls among some effects, in order: where each went and what it carried.\<close>

fun posts :: "effect list \<Rightarrow> (string \<times> payload) list" where
  "posts [] = []"
| "posts (Post url body hs # es) = (url, body) # posts es"
| "posts (e # es) = posts es"

text \<open>The request was answered, by the middleware or by the handler, with this status.\<close>

fun answered :: "js_error + http_response \<Rightarrow> nat \<Rightarrow> bool" where
  "answered (Inr sent) code = (statusCode sent = code)"
| "answered (Inl thrown) code = False"

text \<open>Every request of a run was answered with this status.\<close>

definition all_answered :: "(js_error + http_response) list \<Rightarrow> nat \<Rightarrow> bool" where
  "all_answered sents code = list_all (\<lambda>sent. answered sent code) sents"

text \<open>The client has a window of the request quota that has not ended at time \<open>now\<close>.\<close>

definition window_open :: "world \<Rightarrow> string \<Rightarrow> nat \<Rightarrow> bool" where
  "window_open w ip now =
     (case hits w ip of None \<Rightarrow> False | Some (n, resetTime) \<Rightarrow> now < resetTime)"

text \<open>A world with its trace forgotten: two worlds equal up to it have the same clock,
  cache, quota store, scheduler slot and number of calls.\<close>

definition untraced :: "world \<Rightarrow> world" where
  "untraced w = w\<lparr>trace := []\<rparr>"

section \<open>Scenarios\<close>

text \<open>The error \<^verbatim>\<open>axios\<close> rejects with when the provider answers 429.\<close>

definition rejected_429 :: "response \<Rightarrow> outcome" where
  "rejected_429 r = Rejected (AxiosError ''Request failed with status code 429'' (Some r))"

definition demo_url :: string where
  "demo_url = ''https://provider.example/chat''"

definition demo_body :: payload where
  "demo_body = DetectBody (JStr ''Hola'')"

text \<open>A throttling answer whose body names an error code and no message.\<close>

definition no_message_429 :: response where
  "no_message_429 =
     \<lparr>status = 429, headers = [], data = JObj [(''error'', JObj [(''code'', JStr ''429'')])]\<rparr>"

definition up_no_message :: upstream where
  "up_no_message n = (rejected_429 no_message_429, 0)"

text \<open>Throttled once with \<^verbatim>\<open>retry-after: 3\<close>, then served; the second call ends 3025
  milliseconds after the first, the wait included.\<close>

definition retry_after_3 :: response where
  "retry_after_3 =
     \<lparr>status = 429, headers = [(''retry-after'', ''3'')],
      data = JObj [(''error'', JObj [(''code'', JStr ''429''), (''message'', JStr ''Rate limit reached'')])]\<rparr>"

definition ok_200 :: response where
  "ok_200 = \<lparr>status = 200, headers = [], data = JObj [(''choices'', JArr [])]\<rparr>"

definition up_retry_then_ok :: upstream where
  "up_retry_then_ok n = (if n = 0 then (rejected_429 retry_after_3, 40) else (Resolved ok_200, 3025))"

text \<open>Throttled without a header on every call; and throttled five times, then told that
  the quota is used up.\<close>

definition plain_429 :: response where
  "plain_429 =
     \<lparr>status = 429, headers = [],
      data = JObj [(''error'', JObj [(''code'', JStr ''429''), (''message'', JStr ''Rate limit reached'')])]\<rparr>"

definition quota_429 :: response where
  "quota_429 =
     \<lparr>status = 429, headers = [],
      data = JObj [(''error'', JObj [(''code'', JStr ''429''),
                                     (''message'', JStr ''Quota exceeded for this subscription'')])]\<rparr>"

definition up_throttled :: upstream where
  "up_throttled n = (rejected_429 plain_429, 30)"

definition up_quota :: upstream where
  "up_quota n = (rejected_429 quota_429, 30)"

definition up_quota_last :: upstream where
  "up_quota_last n = (if n < 5 then (rejected_429 plain_429, 30) else (rejected_429 quota_429, 30))"

text \<open>A provider that fails with status 500.\<close>

definition server_error :: js_error where
  "server_error =
     AxiosError ''Request failed with status code 500'' (Some \<lparr>status = 500, headers = [], data = JStr []\<rparr>)"

definition up_broken :: upstream where
  "up_broken n = (Rejected server_error, 15)"

text \<open>An environment with both keys, and one without the key of the AI provider, whose
  endpoint is a gateway of the operator.\<close>

definition env_demo :: process_env where
  "env_demo =
     \<lparr>env_GOOGLE_TRANSLATION_API_KEY = Some ''g-key'', env_AZURE_AI_API_KEY = Some ''a-key'',
      env_AZURE_AI_ENDPOINT = None\<rparr>"

definition env_no_key :: process_env where
  "env_no_key =
     \<lparr>env_GOOGLE_TRANSLATION_API_KEY = Some ''g-key'', env_AZURE_AI_API_KEY = None,
      env_AZURE_AI_ENDPOINT = Some ''http://gateway.internal''\<rparr>"

text \<open>\<^verbatim>\<open>POST /translate\<close> with \<^verbatim>\<open>{text: "Hola", targetLanguage: "es"}\<close>, and a detection
  that answers \<^verbatim>\<open>es\<close>.\<close>

definition hola_es :: jsval where
  "hola_es = JObj [(''text'', JStr ''Hola''), (''targetLanguage'', JStr ''es'')]"

definition detect_es :: response where
  "detect_es =
     \<lparr>status = 200, headers = [],
      data = JObj [(''data'', JObj [(''detections'',
               JArr [JArr [JObj [(''language'', JStr ''es''), (''isReliable'', JBool False),
                                 (''confidence'', JNum ''1'')]]])])]\<rparr>"

definition up_detect_es :: upstream where
  "up_detect_es n = (Resolved detect_es, 80)"

text \<open>\<^verbatim>\<open>POST /summarize\<close> with \<^verbatim>\<open>{text: "hello"}\<close>, \<^verbatim>\<open>POST /analyze-symptoms\<close> with
  \<^verbatim>\<open>{symptoms: "cough"}\<close>, and a provider that completes every chat.\<close>

definition hello :: jsval where
  "hello = JObj [(''text'', JStr ''hello'')]"

definition cough :: jsval where
  "cough = JObj [(''symptoms'', JStr ''cough'')]"

definition completion_200 :: response where
  "completion_200 =
     \<lparr>status = 200, headers = [],
      data = JObj [(''choices'',
               JArr [JObj [(''message'', JObj [(''role'', JStr ''assistant''),
                                               (''content'', JStr '' Rest and fluids. '')])]])]\<rparr>"

definition up_completion :: upstream where
  "up_completion n = (Resolved completion_200, 120)"

text \<open>A request of the client 203.0.113.7 that arrives \<open>k\<close> seconds after the start.\<close>

definition request_at :: "route \<Rightarrow> jsval \<Rightarrow> nat \<Rightarrow> request" where
  "request_at r b k = \<lparr>arrival = 1000 * k, client = ''203.0.113.7'', path = r, parsed = b\<rparr>"

text \<open>Sixteen requests of that client, one a second from the start: all to
  \<^verbatim>\<open>/translate\<close>, and eight to \<^verbatim>\<open>/translate\<close> followed by eight to \<^verbatim>\<open>/summarize\<close>.\<close>

definition translate_burst :: "request list" where
  "translate_burst =
     request_at Translate hola_es 0 # map (request_at Translate hola_es) [1..<16]"


text \<open>Sixteen requests of that client to \<^verbatim>\<open>/translate\<close>, one a second from second 50
  to second 65, so all within sixteen seconds: ten before second 60 and six from there.
  They follow one request of the client at the start, whose window ends at second 60.\<close>

definition late_burst :: "request list" where
  "late_burst =
     map (request_at Translate hola_es) [50..<60] @ map (request_at Translate hola_es) [60..<66]"


section \<open>The retry policy: lemmas\<close>

lemma quota_message_exceeded: "quota_message d \<Longrightarrow> quota_exceeded d = Inr (JBool True)"
  unfolding quota_message_def quota_exceeded_def
  by (cases d; cases "prop_of d ''error''"; simp split: jsval.splits)

lemma calls_setTimeout [simp]: "calls (setTimeout delay w) = calls w"
  by (simp add: setTimeout_def)

text \<open>One round of the policy: the wait, then the call again with one retry less and
  twice the delay.\<close>

lemma retry_step:
  assumes "fst (up (calls w)) = Rejected e" "error_response e = Some r" "status r = 429"
    "0 < retries" "quota_exceeded (data r) = Inr q" "\<not> truthy q"
  shows "retryRequest up url body hs retries d w =
     retryRequest up url body hs (retries - 1) (Times d (Literal 2))
       (setTimeout (Times (retryAfter r d) (Literal 1000)) (snd (axios_post up url body hs w)))"
  using assms by (subst retryRequest.simps) (simp add: axios_post_def)

text \<open>The delay asked for is \<^verbatim>\<open>initialDelay / 1000 * 1000\<close> when the answer has no
  \<^verbatim>\<open>retry-after\<close> header (or an empty one), and the header times 1000 otherwise.\<close>

lemma delay_without_header:
  "map_of (headers r) ''retry-after'' = None \<or> map_of (headers r) ''retry-after'' = Some [] \<Longrightarrow>
     Times (retryAfter r d) (Literal 1000) = Times (Divide d (Literal 1000)) (Literal 1000)"
  by (auto simp: retryAfter_def)

lemma delay_with_header:
  "map_of (headers r) ''retry-after'' = Some s \<Longrightarrow> s \<noteq> [] \<Longrightarrow>
     Times (retryAfter r d) (Literal 1000) = Times (FromString s) (Literal 1000)"
  by (simp add: retryAfter_def)

text \<open>Throttled with \<^verbatim>\<open>retry-after: 3\<close> and then served: the call succeeds with two
  attempts and, between them, a wait for which it asks the header times 1000.\<close>

lemma retry_after_3_then_ok:
  "fst (retryRequest_default up_retry_then_ok url body hs initial_world) = Inr ok_200"
  "trace (snd (retryRequest_default up_retry_then_ok url body hs initial_world)) =
     [Post url body hs, Sleep (Times (FromString ''3'') (Literal 1000)), Post url body hs]"
  "calls (snd (retryRequest_default up_retry_then_ok url body hs initial_world)) = 2"
  by (simp_all add: retryRequest_default_def retryRequest.simps axios_post_def initial_world_def
      up_retry_then_ok_def rejected_429_def retry_after_3_def quota_exceeded_def retryAfter_def
      setTimeout_def)

text \<open>An attempt that is not retried: the error of the provider is what the caller gets.\<close>

lemma last_attempt:
  assumes "fst (up (calls w)) = Rejected e"
    and "retries \<le> 0 \<or> (\<forall>r. error_response e = Some r \<longrightarrow> status r \<noteq> 429)"
  shows "retryRequest up url body hs retries d w =
     (Inl e, w\<lparr>clock := clock w + snd (up (calls w)), trace := trace w @ [Post url body hs],
               calls := calls w + 1\<rparr>)"
  using assms by (subst retryRequest.simps) (auto simp add: axios_post_def split: option.splits)

lemma retries_exhausted:
  "(\<forall>i<n. retried (fst (up (calls w + i)))) \<Longrightarrow> fst (up (calls w + n)) = Rejected e \<Longrightarrow>
     fst (retryRequest up url body hs (int n) d w) = Inl e \<and>
     calls (snd (retryRequest up url body hs (int n) d w)) = calls w + n + 1"
proof (induction n arbitrary: w d)
  case 0
  then show ?case by (simp add: last_attempt)
next
  case (Suc n)
  from Suc.prems(1) have "retried (fst (up (calls w)))" by force
  then obtain e0 r q where e0: "fst (up (calls w)) = Rejected e0" "error_response e0 = Some r"
    "status r = 429" "quota_exceeded (data r) = Inr q" "\<not> truthy q"
    by (auto simp: retried_def split: outcome.splits option.splits sum.splits)
  let ?w = "setTimeout (Times (retryAfter r d) (Literal 1000)) (snd (axios_post up url body hs w))"
  have cw: "calls ?w = calls w + 1" by (simp add: axios_post_def)
  have "retryRequest up url body hs (int (Suc n)) d w =
          retryRequest up url body hs (int (Suc n) - 1) (Times d (Literal 2)) ?w"
    by (rule retry_step[where e = e0 and r = r and q = q]) (use e0 in simp_all)
  then have step: "retryRequest up url body hs (int (Suc n)) d w =
      retryRequest up url body hs (int n) (Times d (Literal 2)) ?w"
    by simp
  have "\<forall>i<n. retried (fst (up (calls ?w + i)))"
    using Suc.prems(1) cw by (metis Suc_eq_plus1 Suc_less_eq add_Suc_shift)
  moreover have "fst (up (calls ?w + n)) = Rejected e" using Suc.prems(2) cw by simp
  ultimately show ?case using Suc.IH[of ?w "Times d (Literal 2)"] step cw by simp
qed

section \<open>The retry policy and the cache: properties\<close>

text \<open>
  C1. The claim: on a 429 without a quota message, with retries left, \<^verbatim>\<open>retryRequest\<close>
  waits and tries again. The code does so when the quota test ends without throwing
  (\<open>retry_step\<close>, \<open>delay_with_header\<close>, \<open>delay_without_header\<close>,
  \<open>retry_after_3_then_ok\<close>). It does not when the body of the 429 has an
  \<^verbatim>\<open>error\<close> but no \<^verbatim>\<open>message\<close>: the body below carries no quota message, yet the call
  with the default five retries ends after its first attempt, with no wait, rejecting
  with the \<^verbatim>\<open>TypeError\<close> of calling \<^verbatim>\<open>includes\<close> on \<^verbatim>\<open>undefined\<close>.
\<close>

theorem retryRequest_throws_on_429_without_message:
  "\<not> quota_message (data no_message_429) \<and>
   retryRequest_default up_no_message url body hs initial_world =
     (Inl (cannot_read JUndefined ''includes''),
      initial_world\<lparr>trace := [Post url body hs], calls := 1\<rparr>)"
  by (simp add: quota_message_def no_message_429_def retryRequest_default_def retryRequest.simps
      axios_post_def up_no_message_def rejected_429_def quota_exceeded_def initial_world_def)

theorem retryRequest_throws_on_429_without_message_witness:
  "fst (retryRequest_default up_no_message demo_url demo_body [] initial_world) =
     Inl (TypeError (''Cannot read properties of undefined (reading '' @ [CHR 0x27] @ ''includes''
            @ [CHR 0x27] @ '')'')) \<and>
   posts (trace (snd (retryRequest_default up_no_message demo_url demo_body [] initial_world))) =
     [(demo_url, demo_body)]"
  using retryRequest_throws_on_429_without_message [of demo_url demo_body "[]"]
  by (simp add: cannot_read_def initial_world_def)

text \<open>
  C2. The claim as stated, for every call: a 429 whose message indicates quota
  exhaustion ends the call with the quota error. It fails when no retry is left: after
  five throttled attempts the sixth answer says that the quota is exceeded, and the call
  rejects with the error of the provider, not with the quota error.
\<close>

theorem quota_message_on_last_attempt_counterexample:
  "quota_message (data quota_429) \<and>
   fst (up_quota_last 5) = rejected_429 quota_429 \<and>
   fst (retryRequest_default up_quota_last demo_url demo_body [] initial_world) =
     Inl (AxiosError ''Request failed with status code 429'' (Some quota_429)) \<and>
   fst (retryRequest_default up_quota_last demo_url demo_body [] initial_world) \<noteq>
     Inl (Error ''API quota exhausted. Please check your subscription.'') \<and>
   calls (snd (retryRequest_default up_quota_last demo_url demo_body [] initial_world)) = 6"
  by (simp add: quota_message_def retryRequest_default_def retryRequest.simps axios_post_def
      quota_exceeded_def retryAfter_def setTimeout_def initial_world_def
      rejected_429_def plain_429_def quota_429_def up_quota_last_def)

text \<open>
  C2, amended. While retries remain, a 429 whose message indicates quota exhaustion
  ends the call at once: it rejects with the error \<^verbatim>\<open>API quota exhausted\<close>, and the
  world afterwards is the world after that one attempt, with no wait and no further
  call.
\<close>

theorem quota_exhausted_is_terminal:
  assumes "fst (up (calls w)) = Rejected e" and "error_response e = Some r"
    and "status r = 429" and "quota_message (data r)" and "0 < retries"
  shows "retryRequest up url body hs retries d w =
     (Inl (Error ''API quota exhausted. Please check your subscription.''),
      w\<lparr>clock := clock w + snd (up (calls w)), trace := trace w @ [Post url body hs],
        calls := calls w + 1\<rparr>)"
  using assms by (subst retryRequest.simps) (simp add: axios_post_def quota_message_exceeded)

theorem quota_exhausted_is_terminal_witness:
  "retryRequest up_quota demo_url demo_body [] 5 (Literal 2000) initial_world =
     (Inl (Error ''API quota exhausted. Please check your subscription.''),
      initial_world\<lparr>clock := 30, trace := [Post demo_url demo_body []], calls := 1\<rparr>)"
  using quota_exhausted_is_terminal [of up_quota initial_world
      "AxiosError ''Request failed with status code 429'' (Some quota_429)" quota_429 5
      demo_url demo_body "[]" "Literal 2000"]
  by (simp add: up_quota_def rejected_429_def quota_429_def quota_message_def initial_world_def)

text \<open>
  C3. When the provider keeps throttling until the budget of \<open>n\<close> retries is used up,
  the error of the last of the \<open>n + 1\<close> attempts is what the call rejects with; and an
  error that is not a 429 (no response at all, or another status) is passed on after
  the one attempt that met it, with no wait and no further call.
\<close>

theorem retryRequest_propagates_errors:
  "((\<forall>i<n. retried (fst (up (calls w + i)))) \<and> fst (up (calls w + n)) = Rejected e \<longrightarrow>
      fst (retryRequest up url body hs (int n) d w) = Inl e \<and>
      calls (snd (retryRequest up url body hs (int n) d w)) = calls w + n + 1) \<and>
   (fst (up (calls w)) = Rejected e' \<and> (\<forall>r. error_response e' = Some r \<longrightarrow> status r \<noteq> 429) \<longrightarrow>
      retryRequest up url body hs retries d w =
        (Inl e', w\<lparr>clock := clock w + snd (up (calls w)), trace := trace w @ [Post url body hs],
                   calls := calls w + 1\<rparr>))"
  using retries_exhausted [of n up w e url body hs d] last_attempt [of up w e' retries url body hs d]
  by blast

theorem retryRequest_propagates_errors_witness:
  "fst (retryRequest up_throttled demo_url demo_body [] 5 (Literal 2000) initial_world) =
     Inl (AxiosError ''Request failed with status code 429'' (Some plain_429)) \<and>
   calls (snd (retryRequest up_throttled demo_url demo_body [] 5 (Literal 2000) initial_world)) = 6 \<and>
   retryRequest up_broken demo_url demo_body [] 5 (Literal 2000) initial_world =
     (Inl server_error, initial_world\<lparr>clock := 15, trace := [Post demo_url demo_body []], calls := 1\<rparr>)"
proof -
  have a: "\<forall>i<5. retried (fst (up_throttled (calls initial_world + i)))"
    by (simp add: retried_def up_throttled_def rejected_429_def plain_429_def quota_exceeded_def)
  have b: "fst (up_throttled (calls initial_world + 5)) =
      Rejected (AxiosError ''Request failed with status code 429'' (Some plain_429))"
    by (simp add: up_throttled_def rejected_429_def)
  have c: "fst (up_broken (calls initial_world)) = Rejected server_error"
    by (simp add: up_broken_def)
  have d: "\<forall>r. error_response server_error = Some r \<longrightarrow> status r \<noteq> 429"
    by (simp add: server_error_def)
  have e: "snd (up_broken (calls initial_world)) = 15" "calls initial_world = 0"
    "trace initial_world = []" "clock initial_world = 0"
    by (simp_all add: up_broken_def initial_world_def)
  show ?thesis
    using retryRequest_propagates_errors [where n = 5 and up = up_throttled and w = initial_world
        and e = "AxiosError ''Request failed with status code 429'' (Some plain_429)"
        and url = demo_url and body = demo_body and hs = "[]" and d = "Literal 2000"]
      retryRequest_propagates_errors [where up = up_broken and w = initial_world
        and e' = server_error and url = demo_url and body = demo_body and hs = "[]" and d = "Literal 2000"
        and retries = 5] a b c d e
    by simp
qed

text \<open>
  C4. A \<^verbatim>\<open>get\<close> right after the \<^verbatim>\<open>set\<close> of a key returns the value stored, as does
  every \<^verbatim>\<open>get\<close> up to 3600 seconds later; a \<^verbatim>\<open>get\<close> strictly more than 3600 seconds
  after the \<^verbatim>\<open>set\<close> reports a miss. Times are in milliseconds.
\<close>

theorem cache_set_then_get:
  "NodeCache_get now key (NodeCache_set now key v c) = v \<and>
   (\<forall>later. later \<le> now + 3600 * 1000 \<longrightarrow> NodeCache_get later key (NodeCache_set now key v c) = v) \<and>
   (\<forall>later. now + 3600 * 1000 < later \<longrightarrow>
      NodeCache_get later key (NodeCache_set now key v c) = JUndefined)"
  by (simp add: NodeCache_get_def NodeCache_set_def stdTTL_def)

theorem cache_set_then_get_witness:
  "NodeCache_get 5000 ''summarize:hello'' (NodeCache_set 5000 ''summarize:hello'' (JStr ''hi'') (cache initial_world))
     = JStr ''hi'' \<and>
   NodeCache_get 3605000 ''summarize:hello'' (NodeCache_set 5000 ''summarize:hello'' (JStr ''hi'') (cache initial_world))
     = JStr ''hi'' \<and>
   NodeCache_get 3605001 ''summarize:hello'' (NodeCache_set 5000 ''summarize:hello'' (JStr ''hi'') (cache initial_world))
     = JUndefined"
  using cache_set_then_get [of 5000 "''summarize:hello''" "JStr ''hi''" "cache initial_world"]
  by simp

section \<open>The handlers: lemmas\<close>

lemma posts_append [simp]: "posts (xs @ ys) = posts xs @ posts ys"
  by (induction xs rule: posts.induct) simp_all

subsection \<open>What a handler answers\<close>

lemma translate_try_200:
  "translate_try env up t l k w = (Inr sent, w') \<Longrightarrow> statusCode sent = 200"
  by (auto simp: translate_try_def respond_def split: prod.splits outcome.splits sum.splits if_splits)

lemma summarize_try_200:
  "summarize_try env up t k w = (Inr sent, w') \<Longrightarrow> statusCode sent = 200"
  by (auto simp: summarize_try_def respond_def split: prod.splits sum.splits)

lemma analyze_try_200:
  "analyze_try env up t k w = (Inr sent, w') \<Longrightarrow> statusCode sent = 200"
  by (auto simp: analyze_try_def respond_def split: prod.splits sum.splits)

lemma handler_never_429: "\<not> answered (fst (handler r env up b w)) 429"
  by (cases r)
     (auto simp: handler_def translate_def summarize_def analyze_symptoms_def respond_def
       dest: translate_try_200 summarize_try_200 analyze_try_200 split: prod.splits sum.splits)

lemma handler_400: "answered (fst (handler r env up b w)) 400 \<Longrightarrow> snd (handler r env up b w) = w"
  by (cases r)
     (auto simp: handler_def translate_def summarize_def analyze_symptoms_def respond_def
       dest: translate_try_200 summarize_try_200 analyze_try_200
       split: prod.splits sum.splits if_splits)

subsection \<open>The trace only grows\<close>

text \<open>
  A call of \<^verbatim>\<open>retryRequest\<close> changes the world by attempts and waits only: a relation
  between worlds that holds across an attempt and across a wait, and is transitive,
  holds across the whole call.
\<close>

lemma retryRequest_stops:
  "\<not> (retried (fst (up (calls w))) \<and> 0 < retries) \<Longrightarrow>
     snd (retryRequest up url body hs retries d w) = snd (axios_post up url body hs w)"
  by (subst retryRequest.simps)
     (auto simp: retried_def axios_post_def split: outcome.splits option.splits sum.splits)

lemma retryRequest_continues:
  assumes "retried (fst (up (calls w)))" and "0 < retries"
  shows "\<exists>r. retryRequest up url body hs retries d w =
     retryRequest up url body hs (retries - 1) (Times d (Literal 2))
       (setTimeout (Times (retryAfter r d) (Literal 1000)) (snd (axios_post up url body hs w)))"
proof -
  obtain e r q where "fst (up (calls w)) = Rejected e" "error_response e = Some r"
    "status r = 429" "quota_exceeded (data r) = Inr q" "\<not> truthy q"
    using assms(1) by (auto simp: retried_def split: outcome.splits option.splits sum.splits)
  then show ?thesis using retry_step [of up w e r retries q url body hs d] assms(2) by blast
qed

lemma retryRequest_across:
  assumes attempt: "\<And>v. Q v (snd (axios_post up url body hs v))"
    and wait: "\<And>delay v. Q v (setTimeout delay v)"
    and trans: "\<And>a b c. Q a b \<Longrightarrow> Q b c \<Longrightarrow> Q a c"
  shows "Q w (snd (retryRequest up url body hs retries d w))"
proof (induction "nat retries" arbitrary: retries d w)
  case 0
  then have "\<not> (retried (fst (up (calls w))) \<and> 0 < retries)" by simp
  then show ?case using retryRequest_stops attempt by metis
next
  case (Suc n)
  show ?case
  proof (cases "retried (fst (up (calls w)))")
    case False
    then show ?thesis using retryRequest_stops attempt by metis
  next
    case True
    have pos: "0 < retries" using Suc.hyps(2) by simp
    obtain r where r: "retryRequest up url body hs retries d w =
        retryRequest up url body hs (retries - 1) (Times d (Literal 2))
          (setTimeout (Times (retryAfter r d) (Literal 1000)) (snd (axios_post up url body hs w)))"
      using retryRequest_continues [of up w retries url body hs d] True pos by blast
    let ?w1 = "snd (axios_post up url body hs w)"
    let ?w2 = "setTimeout (Times (retryAfter r d) (Literal 1000)) ?w1"
    have "n = nat (retries - 1)" using Suc.hyps(2) by simp
    then have "Q ?w2 (snd (retryRequest up url body hs (retries - 1) (Times d (Literal 2)) ?w2))"
      by (rule Suc.hyps(1))
    moreover have "Q w ?w2" using attempt [of w] wait [of ?w1] trans by blast
    ultimately show ?thesis using r trans by metis
  qed
qed

lemma trace_retryRequest:
  "\<exists>es. trace (snd (retryRequest up url body hs retries d w)) = trace w @ es"
  by (rule retryRequest_across [where Q = "\<lambda>a b. \<exists>es. trace b = trace a @ es"])
     (auto simp: axios_post_def setTimeout_def)

text \<open>The scheduled job of the two chat handlers: the template, then the call.\<close>

lemma trace_schedule:
  "\<exists>es. trace (snd (limiter_schedule
       (\<lambda>v. case ToString t of
               Inl thrown \<Rightarrow> (Inl thrown, v)
             | Inr s \<Rightarrow> retryRequest_default up url (mk s) hs v) w)) = trace w @ es"
proof (cases "ToString t")
  case (Inl thrown)
  then show ?thesis by (simp add: limiter_schedule_def)
next
  case (Inr s)
  then show ?thesis
    using trace_retryRequest [of up url "mk s" hs 5 "Literal 2000"
        "w\<lparr>clock := max (clock w) (next_slot w), next_slot := max (clock w) (next_slot w) + minTime\<rparr>"]
    by (simp add: limiter_schedule_def retryRequest_default_def)
qed

lemma trace_summarize_try:
  "\<exists>es. trace (snd (summarize_try env up t k w)) = trace w @ es"
proof -
  let ?r = "limiter_schedule
      (\<lambda>v. case ToString t of
              Inl thrown \<Rightarrow> (Inl thrown, v)
            | Inr s \<Rightarrow> retryRequest_default up (completionsUrl env) (summarize_body s)
                       (azure_headers env) v) w"
  obtain es where "trace (snd ?r) = trace w @ es" using trace_schedule by blast
  then show ?thesis
    by (cases ?r) (auto simp: summarize_try_def cache_set_def io_emit_def split: sum.splits)
qed

lemma trace_analyze_try:
  "\<exists>es. trace (snd (analyze_try env up t k w)) = trace w @ es"
proof -
  let ?r = "limiter_schedule
      (\<lambda>v. case ToString t of
              Inl thrown \<Rightarrow> (Inl thrown, v)
            | Inr s \<Rightarrow> retryRequest_default up (completionsUrl env) (symptoms_body s)
                       (azure_headers env) v) w"
  obtain es where "trace (snd ?r) = trace w @ es" using trace_schedule by blast
  then show ?thesis
    by (cases ?r) (auto simp: analyze_try_def cache_set_def io_emit_def split: sum.splits)
qed

text \<open>The provider calls of the \<^verbatim>\<open>try\<close> block of \<^verbatim>\<open>/translate\<close>: the detection, and
  after it the translation when the detected language is not the target.\<close>

lemma translate_try_posts:
  "\<exists>es. trace (snd (translate_try env up t l k w)) = trace w @ es \<and>
     (posts es = [(detectUrl env, DetectBody t)] \<or>
      (\<exists>r d. fst (up (calls w)) = Resolved r \<and> detected_language (data r) = Inr d \<and>
         \<not> strict_eq d l \<and>
         posts es = [(detectUrl env, DetectBody t),
                     (translateUrl env, TranslateBody t d l ''text'')]))"
  by (auto simp: translate_try_def axios_post_def cache_set_def io_emit_def
      split: outcome.splits sum.splits)

lemma translate_posts:
  "\<exists>es. trace (snd (translate env up b w)) = trace w @ es \<and>
     (posts es = [] \<or>
      posts es = [(detectUrl env, DetectBody (prop_of b ''text''))] \<or>
      (\<exists>r d. fst (up (calls w)) = Resolved r \<and> detected_language (data r) = Inr d \<and>
         \<not> strict_eq d (prop_of b ''targetLanguage'') \<and>
         posts es = [(detectUrl env, DetectBody (prop_of b ''text'')),
                     (translateUrl env,
                      TranslateBody (prop_of b ''text'') d (prop_of b ''targetLanguage'') ''text'')]))"
proof (cases "nullish b \<or> \<not> truthy (prop_of b ''text'') \<or> \<not> truthy (prop_of b ''targetLanguage'')")
  case True
  then show ?thesis by (auto simp: translate_def)
next
  case valid: False
  show ?thesis
  proof (cases "translate_key (prop_of b ''text'') (prop_of b ''targetLanguage'')")
    case (Inl thrown)
    have "trace (snd (translate env up b w)) = trace w @ [Emit ''translate'' ''Translating...'']"
      using valid Inl by (simp add: translate_def io_emit_def)
    moreover have "posts [Emit ''translate'' ''Translating...''] = []" by simp
    ultimately show ?thesis by metis
  next
    case (Inr key)
    let ?got = "cache_get key (io_emit ''translate'' ''Translating...'' w)"
    let ?w2 = "snd ?got"
    let ?pre = "[Emit ''translate'' ''Translating...'', CacheGet key]"
    have w2: "trace ?w2 = trace w @ ?pre" "calls ?w2 = calls w"
      by (simp_all add: cache_get_def io_emit_def)
    show ?thesis
    proof (cases "truthy (fst ?got)")
      case True
      with valid Inr show ?thesis
        by (auto simp: translate_def cache_get_def io_emit_def split: prod.splits)
    next
      case miss: False
      let ?t = "translate_try env up (prop_of b ''text'') (prop_of b ''targetLanguage'') key ?w2"
      obtain es where es: "trace (snd ?t) = trace ?w2 @ es"
        "posts es = [(detectUrl env, DetectBody (prop_of b ''text''))] \<or>
         (\<exists>r d. fst (up (calls ?w2)) = Resolved r \<and> detected_language (data r) = Inr d \<and>
            \<not> strict_eq d (prop_of b ''targetLanguage'') \<and>
            posts es = [(detectUrl env, DetectBody (prop_of b ''text'')),
                        (translateUrl env,
                         TranslateBody (prop_of b ''text'') d (prop_of b ''targetLanguage'') ''text'')])"
        using translate_try_posts by blast
      have "trace (snd (translate env up b w)) = trace ?w2 @ es \<or>
            trace (snd (translate env up b w)) =
              trace ?w2 @ es @ [Emit ''translate'' ''Translation failed.'']"
        using valid Inr miss es(1)
        by (auto simp: translate_def io_emit_def split: prod.splits sum.splits)
      then show ?thesis
      proof
        assume "trace (snd (translate env up b w)) = trace ?w2 @ es"
        then have "trace (snd (translate env up b w)) = trace w @ (?pre @ es)"
          by (simp add: w2)
        moreover have "posts (?pre @ es) = posts es" by simp
        ultimately show ?thesis using es(2) w2(2) by metis
      next
        assume "trace (snd (translate env up b w)) =
            trace ?w2 @ es @ [Emit ''translate'' ''Translation failed.'']"
        then have "trace (snd (translate env up b w)) =
            trace w @ (?pre @ es @ [Emit ''translate'' ''Translation failed.''])"
          by (simp add: w2)
        moreover have "posts (?pre @ es @ [Emit ''translate'' ''Translation failed.'']) = posts es"
          by simp
        ultimately show ?thesis using es(2) w2(2) by metis
      qed
    qed
  qed
qed

text \<open>The same language detected: one provider call, and the answer carries the text
  unchanged together with a note.\<close>

lemma same_language:
  assumes "truthy (prop_of b ''text'')" and "truthy (prop_of b ''targetLanguage'')"
    and "translate_key (prop_of b ''text'') (prop_of b ''targetLanguage'') = Inr key"
    and "\<not> truthy (NodeCache_get (clock w) key (cache w))"
    and "fst (up (calls w)) = Resolved r" and "detected_language (data r) = Inr d"
    and "strict_eq d (prop_of b ''targetLanguage'')"
  shows "fst (translate env up b w) =
      Inr (respond 200
        (JObj [(''detectedLanguage'', d), (''translatedText'', prop_of b ''text''),
               (''message'', JStr ''Same language detected.'')]))"
    and "posts (drop (length (trace w)) (trace (snd (translate env up b w)))) =
           [(detectUrl env, DetectBody (prop_of b ''text''))]"
proof -
  have "\<not> nullish b" using assms(1) by (cases b) simp_all
  then show "fst (translate env up b w) =
      Inr (respond 200
        (JObj [(''detectedLanguage'', d), (''translatedText'', prop_of b ''text''),
               (''message'', JStr ''Same language detected.'')]))"
    and "posts (drop (length (trace w)) (trace (snd (translate env up b w)))) =
           [(detectUrl env, DetectBody (prop_of b ''text''))]"
    using assms
    by (simp_all add: translate_def translate_try_def cache_get_def io_emit_def axios_post_def
        cache_set_def)
qed

subsection \<open>A failed request\<close>

lemma translate_500:
  "answered (fst (translate env up b w)) 500 \<Longrightarrow>
     \<exists>es. trace (snd (translate env up b w)) =
            trace w @ es @ [Emit ''translate'' ''Translation failed.'']"
proof -
  assume a: "answered (fst (translate env up b w)) 500"
  then obtain key where key: "translate_key (prop_of b ''text'') (prop_of b ''targetLanguage'') = Inr key"
    by (cases "translate_key (prop_of b ''text'') (prop_of b ''targetLanguage'')")
       (auto simp: translate_def respond_def split: if_splits)
  let ?w2 = "snd (cache_get key (io_emit ''translate'' ''Translating...'' w))"
  let ?t = "translate_try env up (prop_of b ''text'') (prop_of b ''targetLanguage'') key ?w2"
  obtain es where es: "trace (snd ?t) = trace ?w2 @ es" using translate_try_posts by blast
  have w2: "trace ?w2 = trace w @ [Emit ''translate'' ''Translating...'', CacheGet key]"
    by (simp add: cache_get_def io_emit_def)
  have "trace (snd (translate env up b w)) =
      trace (snd ?t) @ [Emit ''translate'' ''Translation failed.'']"
    using a key
    by (auto simp: translate_def respond_def io_emit_def dest: translate_try_200
        split: prod.splits sum.splits if_splits)
  then show ?thesis by (simp add: es w2)
qed

lemma summarize_500:
  "answered (fst (summarize env up b w)) 500 \<Longrightarrow>
     \<exists>es. trace (snd (summarize env up b w)) =
            trace w @ es @ [Emit ''summarize'' ''Summarization failed.'']"
proof -
  assume a: "answered (fst (summarize env up b w)) 500"
  then obtain key where key: "summarize_key (prop_of b ''text'') = Inr key"
    by (cases "summarize_key (prop_of b ''text'')")
       (auto simp: summarize_def respond_def split: if_splits)
  let ?w2 = "snd (cache_get key (io_emit ''summarize'' ''Summarizing...'' w))"
  let ?t = "summarize_try env up (prop_of b ''text'') key ?w2"
  obtain es where es: "trace (snd ?t) = trace ?w2 @ es" using trace_summarize_try by blast
  have w2: "trace ?w2 = trace w @ [Emit ''summarize'' ''Summarizing...'', CacheGet key]"
    by (simp add: cache_get_def io_emit_def)
  have "trace (snd (summarize env up b w)) =
          trace ?w2 @ [Emit ''summarize'' ''Summarization failed.''] \<or>
        trace (snd (summarize env up b w)) =
          trace (snd ?t) @ [Emit ''summarize'' ''Summarization failed.'']"
    using a key
    by (auto simp: summarize_def respond_def io_emit_def dest: summarize_try_200
        split: prod.splits sum.splits if_splits)
  then show ?thesis by (auto simp: es w2)
qed

lemma analyze_500:
  "answered (fst (analyze_symptoms env up b w)) 500 \<Longrightarrow>
     \<exists>es. trace (snd (analyze_symptoms env up b w)) =
            trace w @ es @ [Emit ''symptoms'' ''Analysis failed.'']"
proof -
  assume a: "answered (fst (analyze_symptoms env up b w)) 500"
  then obtain key where key: "symptoms_key (prop_of b ''symptoms'') = Inr key"
    by (cases "symptoms_key (prop_of b ''symptoms'')")
       (auto simp: analyze_symptoms_def respond_def split: if_splits)
  let ?w2 = "snd (cache_get key (io_emit ''symptoms'' ''Analyzing symptoms...'' w))"
  let ?t = "analyze_try env up (prop_of b ''symptoms'') key ?w2"
  obtain es where es: "trace (snd ?t) = trace ?w2 @ es" using trace_analyze_try by blast
  have w2: "trace ?w2 = trace w @ [Emit ''symptoms'' ''Analyzing symptoms...'', CacheGet key]"
    by (simp add: cache_get_def io_emit_def)
  have "trace (snd (analyze_symptoms env up b w)) =
      trace (snd ?t) @ [Emit ''symptoms'' ''Analysis failed.'']"
    using a key
    by (auto simp: analyze_symptoms_def respond_def io_emit_def dest: analyze_try_200
        split: prod.splits sum.splits if_splits)
  then show ?thesis by (simp add: es w2)
qed

subsection \<open>The key of the AI provider\<close>

text \<open>Without the key, \<^verbatim>\<open>/summarize\<close> answers 500 on a miss of the cache and calls no
  provider.\<close>

lemma summarize_without_key:
  assumes "\<not> truthy (AZURE_AI_API_KEY env)" and "truthy (prop_of b ''text'')"
    and "summarize_key (prop_of b ''text'') = Inr key"
    and "\<not> truthy (NodeCache_get (clock w) key (cache w))"
  shows "summarize env up b w =
     (Inr \<lparr>statusCode = 500,
           json = JObj [(''error'',
                    JStr ''API key not found. Set the AZURE_OPENAI_API_KEY environment variable.'')]\<rparr>,
      w\<lparr>trace := trace w @ [Emit ''summarize'' ''Summarizing...'', CacheGet key,
                             Emit ''summarize'' ''Summarization failed.'']\<rparr>)"
proof -
  have "\<not> nullish b" using assms(2) by (cases b) simp_all
  then show ?thesis
    using assms by (simp add: summarize_def cache_get_def io_emit_def respond_def)
qed

text \<open>
  The headers handed to \<^verbatim>\<open>retryRequest\<close> reach the trace and nothing else: two calls
  that differ in them only, from worlds equal up to the trace, end with the same result
  in worlds equal up to the trace. The key of \<^verbatim>\<open>/analyze-symptoms\<close> is used in those
  headers only, so what the handler answers is the same with any key and with none.
\<close>

lemma untraced_fields:
  "untraced a = untraced b \<Longrightarrow>
     clock a = clock b \<and> cache a = cache b \<and> hits a = hits b \<and> next_slot a = next_slot b \<and>
     calls a = calls b"
  unfolding untraced_def
  by (metis world.select_convs(1,2,3,4,6) world.surjective world.update_convs(5))

lemma untraced_axios_post:
  "untraced a = untraced b \<Longrightarrow>
     fst (axios_post up url body hs a) = fst (axios_post up url' body' hs' b) \<and>
     untraced (snd (axios_post up url body hs a)) = untraced (snd (axios_post up url' body' hs' b))"
  using untraced_fields [of a b]
  by (cases a; cases b) (simp add: axios_post_def untraced_def)

lemma untraced_setTimeout:
  "untraced a = untraced b \<Longrightarrow> untraced (setTimeout delay a) = untraced (setTimeout delay b)"
  using untraced_fields [of a b]
  by (cases a; cases b) (simp add: setTimeout_def untraced_def)

lemma retryRequest_stops_result:
  "\<not> (retried (fst (up (calls a))) \<and> 0 < retries) \<Longrightarrow> calls a = calls b \<Longrightarrow>
     fst (retryRequest up url body hs retries d a) = fst (retryRequest up url' body' hs' retries d' b)"
  by (subst retryRequest.simps [of _ _ _ _ _ _ a], subst retryRequest.simps [of _ _ _ _ _ _ b])
     (auto simp: retried_def axios_post_def split: outcome.splits option.splits sum.splits)

lemma retryRequest_ignores_headers:
  "untraced a = untraced b \<Longrightarrow>
     fst (retryRequest up url body hs retries d a) = fst (retryRequest up url body hs' retries d b) \<and>
     untraced (snd (retryRequest up url body hs retries d a)) =
       untraced (snd (retryRequest up url body hs' retries d b))"
proof (induction "nat retries" arbitrary: retries d a b)
  case 0
  have c: "calls a = calls b" using untraced_fields [OF 0(2)] by simp
  have stop: "\<not> (retried (fst (up (calls a))) \<and> 0 < retries)"
    "\<not> (retried (fst (up (calls b))) \<and> 0 < retries)" using 0(1) by simp_all
  show ?case
    using retryRequest_stops_result
        [where up = up and a = a and b = b and retries = retries and url = url and url' = url
          and body = body and body' = body and hs = hs and hs' = hs' and d = d and d' = d]
      retryRequest_stops [of up a retries url body hs d]
      retryRequest_stops [of up b retries url body hs' d]
      untraced_axios_post [of a b up url body hs url body hs'] stop c 0(2)
    by simp
next
  case (Suc n)
  have c: "calls a = calls b" using untraced_fields [OF Suc(3)] by simp
  show ?case
  proof (cases "retried (fst (up (calls a)))")
    case False
    then have stop: "\<not> (retried (fst (up (calls a))) \<and> 0 < retries)"
      "\<not> (retried (fst (up (calls b))) \<and> 0 < retries)" using c by simp_all
    show ?thesis
      using retryRequest_stops_result
          [where up = up and a = a and b = b and retries = retries and url = url and url' = url
            and body = body and body' = body and hs = hs and hs' = hs' and d = d and d' = d]
        retryRequest_stops [of up a retries url body hs d]
        retryRequest_stops [of up b retries url body hs' d]
        untraced_axios_post [of a b up url body hs url body hs'] stop c Suc(3)
      by simp
  next
    case True
    have pos: "0 < retries" using Suc(2) by simp
    obtain e r q where e: "fst (up (calls a)) = Rejected e" "error_response e = Some r"
      "status r = 429" "quota_exceeded (data r) = Inr q" "\<not> truthy q"
      using True by (auto simp: retried_def split: outcome.splits option.splits sum.splits)
    let ?a = "setTimeout (Times (retryAfter r d) (Literal 1000)) (snd (axios_post up url body hs a))"
    let ?b = "setTimeout (Times (retryAfter r d) (Literal 1000)) (snd (axios_post up url body hs' b))"
    have sa: "retryRequest up url body hs retries d a =
        retryRequest up url body hs (retries - 1) (Times d (Literal 2)) ?a"
      by (rule retry_step [where e = e and r = r and q = q]) (use e pos in simp_all)
    have sb: "retryRequest up url body hs' retries d b =
        retryRequest up url body hs' (retries - 1) (Times d (Literal 2)) ?b"
      by (rule retry_step [where e = e and r = r and q = q]) (use e pos c in simp_all)
    have "untraced ?a = untraced ?b"
      using untraced_axios_post [of a b up url body hs url body hs'] Suc(3)
        untraced_setTimeout
          [of "snd (axios_post up url body hs a)" "snd (axios_post up url body hs' b)"]
      by simp
    moreover have "n = nat (retries - 1)" using Suc(2) by simp
    ultimately show ?thesis
      using Suc(1) [of "retries - 1" ?a ?b "Times d (Literal 2)"] sa sb by simp
  qed
qed

lemma analyze_try_ignores_key:
  "fst (analyze_try (env\<lparr>env_AZURE_AI_API_KEY := k\<rparr>) up s key w) = fst (analyze_try env up s key w)"
proof -
  let ?e = "env\<lparr>env_AZURE_AI_API_KEY := k\<rparr>"
  let ?w = "w\<lparr>clock := max (clock w) (next_slot w), next_slot := max (clock w) (next_slot w) + minTime\<rparr>"
  have u: "completionsUrl ?e = completionsUrl env"
    by (simp add: completionsUrl_def AZURE_AI_ENDPOINT_def)
  show ?thesis
  proof (cases "ToString s")
    case (Inl thrown)
    then show ?thesis by (simp add: analyze_try_def limiter_schedule_def)
  next
    case (Inr t)
    let ?a = "retryRequest up (completionsUrl env) (symptoms_body t) (azure_headers ?e) 5
        (Literal 2000) ?w"
    let ?b = "retryRequest up (completionsUrl env) (symptoms_body t) (azure_headers env) 5
        (Literal 2000) ?w"
    have "fst ?a = fst ?b"
      using retryRequest_ignores_headers [of ?w ?w] by blast
    then show ?thesis
      using Inr
      by (cases ?a; cases ?b)
         (auto simp: analyze_try_def limiter_schedule_def retryRequest_default_def u
          split: sum.splits)
  qed
qed

lemma analyze_symptoms_ignores_key:
  "fst (analyze_symptoms (env\<lparr>env_AZURE_AI_API_KEY := k\<rparr>) up b w) = fst (analyze_symptoms env up b w)"
proof (cases "symptoms_key (prop_of b ''symptoms'')")
  case (Inl thrown)
  then show ?thesis by (simp add: analyze_symptoms_def)
next
  case (Inr key)
  let ?e = "env\<lparr>env_AZURE_AI_API_KEY := k\<rparr>"
  let ?w2 = "snd (cache_get key (io_emit ''symptoms'' ''Analyzing symptoms...'' w))"
  have "fst (analyze_try ?e up (prop_of b ''symptoms'') key ?w2) =
        fst (analyze_try env up (prop_of b ''symptoms'') key ?w2)"
    by (rule analyze_try_ignores_key)
  then show ?thesis
    using Inr by (auto simp: analyze_symptoms_def cache_get_def split: prod.splits sum.splits)
qed

subsection \<open>The request quota\<close>

lemma hits_retryRequest: "hits (snd (retryRequest up url body hs retries d w)) = hits w"
  by (rule retryRequest_across [where Q = "\<lambda>a b. hits b = hits a"])
     (auto simp: axios_post_def setTimeout_def)

lemma hits_schedule:
  "hits (snd (limiter_schedule
       (\<lambda>v. case ToString t of
               Inl thrown \<Rightarrow> (Inl thrown, v)
             | Inr s \<Rightarrow> retryRequest_default up url (mk s) hs v) w)) = hits w"
  by (cases "ToString t")
     (simp_all add: limiter_schedule_def retryRequest_default_def hits_retryRequest)

lemma hits_translate_try: "hits (snd (translate_try env up t l k w)) = hits w"
  by (auto simp: translate_try_def axios_post_def cache_set_def io_emit_def
      split: outcome.splits sum.splits)

lemma hits_summarize_try: "hits (snd (summarize_try env up t k w)) = hits w"
proof -
  let ?r = "limiter_schedule
      (\<lambda>v. case ToString t of
              Inl thrown \<Rightarrow> (Inl thrown, v)
            | Inr s \<Rightarrow> retryRequest_default up (completionsUrl env) (summarize_body s)
                       (azure_headers env) v) w"
  have "hits (snd ?r) = hits w" by (rule hits_schedule)
  then show ?thesis
    by (cases ?r) (auto simp: summarize_try_def cache_set_def io_emit_def split: sum.splits)
qed

lemma hits_analyze_try: "hits (snd (analyze_try env up t k w)) = hits w"
proof -
  let ?r = "limiter_schedule
      (\<lambda>v. case ToString t of
              Inl thrown \<Rightarrow> (Inl thrown, v)
            | Inr s \<Rightarrow> retryRequest_default up (completionsUrl env) (symptoms_body s)
                       (azure_headers env) v) w"
  have "hits (snd ?r) = hits w" by (rule hits_schedule)
  then show ?thesis
    by (cases ?r) (auto simp: analyze_try_def cache_set_def io_emit_def split: sum.splits)
qed

lemma hits_translate: "hits (snd (translate env up b w)) = hits w"
proof (cases "translate_key (prop_of b ''text'') (prop_of b ''targetLanguage'')")
  case (Inl thrown)
  then show ?thesis by (simp add: translate_def io_emit_def)
next
  case (Inr key)
  let ?w2 = "snd (cache_get key (io_emit ''translate'' ''Translating...'' w))"
  let ?t = "translate_try env up (prop_of b ''text'') (prop_of b ''targetLanguage'') key ?w2"
  have "hits (snd ?t) = hits ?w2" by (rule hits_translate_try)
  moreover have "hits ?w2 = hits w" by (simp add: cache_get_def io_emit_def)
  ultimately show ?thesis
    using Inr by (cases ?t) (auto simp: translate_def cache_get_def io_emit_def split: sum.splits)
qed

lemma hits_summarize: "hits (snd (summarize env up b w)) = hits w"
proof (cases "summarize_key (prop_of b ''text'')")
  case (Inl thrown)
  then show ?thesis by (simp add: summarize_def io_emit_def)
next
  case (Inr key)
  let ?w2 = "snd (cache_get key (io_emit ''summarize'' ''Summarizing...'' w))"
  let ?t = "summarize_try env up (prop_of b ''text'') key ?w2"
  have "hits (snd ?t) = hits ?w2" by (rule hits_summarize_try)
  moreover have "hits ?w2 = hits w" by (simp add: cache_get_def io_emit_def)
  ultimately show ?thesis
    using Inr by (cases ?t) (auto simp: summarize_def cache_get_def io_emit_def split: sum.splits)
qed

lemma hits_analyze: "hits (snd (analyze_symptoms env up b w)) = hits w"
proof (cases "symptoms_key (prop_of b ''symptoms'')")
  case (Inl thrown)
  then show ?thesis by (simp add: analyze_symptoms_def io_emit_def)
next
  case (Inr key)
  let ?w2 = "snd (cache_get key (io_emit ''symptoms'' ''Analyzing symptoms...'' w))"
  let ?t = "analyze_try env up (prop_of b ''symptoms'') key ?w2"
  have "hits (snd ?t) = hits ?w2" by (rule hits_analyze_try)
  moreover have "hits ?w2 = hits w" by (simp add: cache_get_def io_emit_def)
  ultimately show ?thesis
    using Inr
    by (cases ?t) (auto simp: analyze_symptoms_def cache_get_def io_emit_def split: sum.splits)
qed

lemma hits_handler: "hits (snd (handler r env up b w)) = hits w"
  by (cases r) (simp_all add: handler_def hits_translate hits_summarize hits_analyze)

text \<open>Whatever the route, a request is counted once against its client, and it is
  answered 429 exactly when the count has passed the maximum.\<close>

lemma serve_hits:
  "hits (snd (serve env up req w)) =
     (hits w)(client req \<mapsto> increment (arrival req) (client req) (hits w))"
  by (simp add: serve_def apiLimiter_def hits_handler)

lemma serve_429:
  "answered (fst (serve env up req w)) 429 =
     (max_requests < fst (increment (arrival req) (client req) (hits w)))"
  by (simp add: serve_def apiLimiter_def handler_never_429)

lemma serve_limited:
  "max_requests < fst (increment (arrival req) (client req) (hits w)) \<Longrightarrow>
     serve env up req w =
       (Inr \<lparr>statusCode = 429, json = limit_message\<rparr>,
        w\<lparr>clock := arrival req,
          hits := (hits w)(client req \<mapsto> increment (arrival req) (client req) (hits w))\<rparr>)"
  by (simp add: serve_def apiLimiter_def)

lemma serve_all_Cons:
  "fst (serve_all env up (req # reqs) w) =
     fst (serve env up req w) # fst (serve_all env up reqs (snd (serve env up req w)))"
  "snd (serve_all env up (req # reqs) w) = snd (serve_all env up reqs (snd (serve env up req w)))"
  by (simp_all split: prod.splits)

lemma serve_all_limited:
  "\<forall>i<length reqs. answered (fst (serve_all env up reqs w) ! i) 429 \<longrightarrow>
     fst (serve_all env up reqs w) ! i = Inr \<lparr>statusCode = 429, json = limit_message\<rparr>"
proof (induction reqs arbitrary: w)
  case Nil
  then show ?case by simp
next
  case (Cons req reqs)
  obtain sent w1 where s: "serve env up req w = (sent, w1)" by (cases "serve env up req w")
  have first: "answered sent 429 \<longrightarrow> sent = Inr \<lparr>statusCode = 429, json = limit_message\<rparr>"
    using serve_429 [of env up req w] serve_limited [of req w env up] s by auto
  show ?case
  proof (intro allI impI)
    fix i
    assume "i < length (req # reqs)" and "answered (fst (serve_all env up (req # reqs) w) ! i) 429"
    then show "fst (serve_all env up (req # reqs) w) ! i = Inr \<lparr>statusCode = 429, json = limit_message\<rparr>"
      using first Cons.IH [of w1] s by (cases i) (auto split: prod.splits)
  qed
qed

lemma serve_all_window:
  assumes "hits w c = Some (n, resetTime)"
    and "\<forall>req\<in>set reqs. client req = c \<and> arrival req < resetTime"
  shows "\<forall>i<length reqs.
           answered (fst (serve_all env up reqs w) ! i) 429 = (max_requests < n + i + 1)"
  using assms
proof (induction reqs arbitrary: w n)
  case Nil
  then show ?case by simp
next
  case (Cons req reqs)
  have inc: "increment (arrival req) (client req) (hits w) = (n + 1, resetTime)"
    using Cons.prems by (simp add: increment_def)
  obtain sent w1 where s: "serve env up req w = (sent, w1)" by (cases "serve env up req w")
  have first: "answered sent 429 = (max_requests < n + 1)"
    using serve_429 [of env up req w] s inc by simp
  have "hits w1 c = Some (n + 1, resetTime)"
    using serve_hits [of env up req w] s inc Cons.prems by simp
  then have rest: "\<forall>i<length reqs.
      answered (fst (serve_all env up reqs w1) ! i) 429 = (max_requests < (n + 1) + i + 1)"
    using Cons.IH [of w1 "n + 1"] Cons.prems(2) by simp
  show ?case
  proof (intro allI impI)
    fix i
    assume "i < length (req # reqs)"
    then show "answered (fst (serve_all env up (req # reqs) w) ! i) 429 =
        (max_requests < n + i + 1)"
      using first rest s by (cases i) (auto split: prod.splits)
  qed
qed

text \<open>A client with no open window sends requests, all before the window opened by the
  first of them ends: the first fifteen pass the quota and the others do not.\<close>

lemma serve_all_fresh:
  assumes "\<not> window_open w c (arrival req)"
    and "client req = c"
    and "\<forall>r\<in>set reqs. client r = c \<and> arrival r < arrival req + windowMs"
  shows "\<forall>i<length (req # reqs).
           answered (fst (serve_all env up (req # reqs) w) ! i) 429 = (15 \<le> i)"
proof -
  have inc: "increment (arrival req) (client req) (hits w) = (1, arrival req + windowMs)"
    using assms(1,2) by (auto simp: increment_def window_open_def split: option.splits)
  obtain sent w1 where s: "serve env up req w = (sent, w1)" by (cases "serve env up req w")
  have first: "\<not> answered sent 429"
    using serve_429 [of env up req w] s inc by (simp add: max_requests_def)
  have "hits w1 c = Some (1, arrival req + windowMs)"
    using serve_hits [of env up req w] s inc assms(2) by simp
  then have rest: "\<forall>i<length reqs.
      answered (fst (serve_all env up reqs w1) ! i) 429 = (max_requests < 1 + i + 1)"
    using serve_all_window [of w1 c 1 "arrival req + windowMs" reqs env up] assms(3) by simp
  show ?thesis
  proof (intro allI impI)
    fix i
    assume "i < length (req # reqs)"
    then show "answered (fst (serve_all env up (req # reqs) w) ! i) 429 = (15 \<le> i)"
      using first rest s by (cases i) (auto split: prod.splits simp: max_requests_def)
  qed
qed

text \<open>
  A window that ends among the requests of a client: after the requests before its end,
  the first request at or after the end opens a new window, and the requests from there
  are counted from one again.
\<close>

lemma serve_all_append:
  "serve_all env up (xs @ ys) w =
     (fst (serve_all env up xs w) @ fst (serve_all env up ys (snd (serve_all env up xs w))),
      snd (serve_all env up ys (snd (serve_all env up xs w))))"
  by (induction xs arbitrary: w) (simp_all add: split_beta)

lemma serve_all_length: "length (fst (serve_all env up reqs w)) = length reqs"
proof (induction reqs arbitrary: w)
  case Nil
  then show ?case by simp
next
  case (Cons req reqs)
  show ?case using Cons [of "snd (serve env up req w)"] by (simp add: split_beta)
qed

lemma serve_all_hits_window:
  assumes "hits w c = Some (n, resetTime)"
    and "\<forall>req\<in>set reqs. client req = c \<and> arrival req < resetTime"
  shows "hits (snd (serve_all env up reqs w)) c = Some (n + length reqs, resetTime)"
  using assms
proof (induction reqs arbitrary: w n)
  case Nil
  then show ?case by simp
next
  case (Cons req reqs)
  have inc: "increment (arrival req) (client req) (hits w) = (n + 1, resetTime)"
    using Cons.prems by (simp add: increment_def)
  have "hits (snd (serve env up req w)) c = Some (n + 1, resetTime)"
    using serve_hits [of env up req w] inc Cons.prems by simp
  then show ?case
    using Cons.IH [of "snd (serve env up req w)" "n + 1"] Cons.prems(2)
    by (simp add: split_beta)
qed

text \<open>The answers to the requests that follow a first request and some others.\<close>

lemma serve_all_nth_later:
  "fst (serve_all env up (req # xs @ ys) w) ! (Suc (length xs) + i) =
     fst (serve_all env up ys (snd (serve_all env up xs (snd (serve env up req w))))) ! i"
proof -
  have "fst (serve_all env up (req # xs @ ys) w) =
      fst (serve env up req w) #
        (fst (serve_all env up xs (snd (serve env up req w))) @
         fst (serve_all env up ys (snd (serve_all env up xs (snd (serve env up req w))))))"
    by (simp add: serve_all_Cons(1) serve_all_append del: serve_all.simps)
  then show ?thesis
    by (simp add: nth_append serve_all_length del: serve_all.simps)
qed

section \<open>The handlers: properties\<close>




text \<open>
  C6. The claim gives the answer to \<^verbatim>\<open>{text: "Hola", targetLanguage: "es"}\<close>, when the
  detection says \<^verbatim>\<open>es\<close>, as \<^verbatim>\<open>{detectedLanguage: "es", translatedText: "Hola"}\<close>. The
  object the handler sends has a third property, \<^verbatim>\<open>message\<close>.
\<close>

theorem same_language_answer_counterexample:
  "fst (translate env_demo up_detect_es hola_es initial_world) =
     Inr \<lparr>statusCode = 200,
          json = JObj [(''detectedLanguage'', JStr ''es''), (''translatedText'', JStr ''Hola''),
                       (''message'', JStr ''Same language detected.'')]\<rparr> \<and>
   json (projr (fst (translate env_demo up_detect_es hola_es initial_world))) \<noteq>
     JObj [(''detectedLanguage'', JStr ''es''), (''translatedText'', JStr ''Hola'')]"
  by (simp add: translate_def hola_es_def translate_key_def cache_get_def io_emit_def
      initial_world_def NodeCache_get_def translate_try_def axios_post_def up_detect_es_def
      detect_es_def detected_language_def get_prop_def respond_def cache_set_def)

text \<open>
  C6, amended. The provider calls of one \<^verbatim>\<open>POST /translate\<close> are none, or the detection
  alone, or the detection followed by the translation, the latter only when the detected
  language is not the target. When the request is valid, the template of the cache key
  does not throw (the text and the target language convert to strings, to \<open>key\<close>), the
  cache misses and the detection answers the target language, the handler calls the
  detection only and sends 200 with
  \<^verbatim>\<open>{detectedLanguage, translatedText: text, message: "Same language detected."}\<close>.
\<close>

theorem translate_detects_before_translating:
  "(\<exists>es. trace (snd (translate env up b w)) = trace w @ es \<and>
      (posts es = [] \<or>
       posts es = [(detectUrl env, DetectBody (prop_of b ''text''))] \<or>
       (\<exists>r d. fst (up (calls w)) = Resolved r \<and> detected_language (data r) = Inr d \<and>
          \<not> strict_eq d (prop_of b ''targetLanguage'') \<and>
          posts es = [(detectUrl env, DetectBody (prop_of b ''text'')),
                      (translateUrl env,
                       TranslateBody (prop_of b ''text'') d (prop_of b ''targetLanguage'') ''text'')]))) \<and>
   (truthy (prop_of b ''text'') \<and> truthy (prop_of b ''targetLanguage'') \<and>
    translate_key (prop_of b ''text'') (prop_of b ''targetLanguage'') = Inr key \<and>
    \<not> truthy (NodeCache_get (clock w) key (cache w)) \<and>
    fst (up (calls w)) = Resolved r' \<and> detected_language (data r') = Inr d' \<and>
    strict_eq d' (prop_of b ''targetLanguage'') \<longrightarrow>
      fst (translate env up b w) =
        Inr (respond 200
          (JObj [(''detectedLanguage'', d'), (''translatedText'', prop_of b ''text''),
                 (''message'', JStr ''Same language detected.'')])) \<and>
      posts (drop (length (trace w)) (trace (snd (translate env up b w)))) =
        [(detectUrl env, DetectBody (prop_of b ''text''))])"
  using translate_posts [of env up b w] same_language [of b key w up r' d' env] by blast

theorem translate_detects_before_translating_witness:
  "fst (translate env_demo up_detect_es hola_es initial_world) =
     Inr \<lparr>statusCode = 200,
          json = JObj [(''detectedLanguage'', JStr ''es''), (''translatedText'', JStr ''Hola''),
                       (''message'', JStr ''Same language detected.'')]\<rparr> \<and>
   posts (trace (snd (translate env_demo up_detect_es hola_es initial_world))) =
     [(detectUrl env_demo, DetectBody (JStr ''Hola''))]"
proof -
  have "detected_language (data detect_es) = Inr (JStr ''es'')"
    by (simp add: detected_language_def detect_es_def get_prop_def )
  moreover have "translate_key (JStr ''Hola'') (JStr ''es'') = Inr ''translate:Hola:es''"
    by (simp add: translate_key_def )
  ultimately show ?thesis
    using translate_detects_before_translating
        [where b = hola_es and w = initial_world and up = up_detect_es and r' = detect_es
          and d' = "JStr ''es''" and env = env_demo and key = "''translate:Hola:es''"]
    by (simp add: hola_es_def initial_world_def up_detect_es_def NodeCache_get_def respond_def)
qed

text \<open>
  C7. The claim: a client that issues sixteen requests to \<^verbatim>\<open>/translate\<close> within one
  minute receives 429 on the sixteenth. The quota is counted in windows of one minute
  that start with a request of the client, not over the minute before each request. A
  client sends one request, and then sixteen between second 50 and second 65: the window
  ends at second 60, the ten requests before are the second to the eleventh of their
  window, the six from there are the first to the sixth of the next, and all seventeen
  are answered 200, the sixteenth of the burst too.
\<close>

theorem sixteenth_within_a_minute_passes_counterexample:
  "length late_burst = 16 \<and>
   arrival (late_burst ! 15) - arrival (late_burst ! 0) < windowMs \<and>
   set (map path late_burst) = {Translate} \<and>
   set (map client late_burst) = {''203.0.113.7''} \<and>
   all_answered
     (fst (serve_all env_demo up_detect_es (request_at Translate hola_es 0 # late_burst)
             initial_world)) 200 \<and>
   \<not> answered
       (fst (serve_all env_demo up_detect_es (request_at Translate hola_es 0 # late_burst)
               initial_world) ! 16) 429"
proof -
  let ?c = "''203.0.113.7''"
  let ?first = "request_at Translate hola_es 0"
  let ?a = "map (request_at Translate hola_es) [50..<60]"
  let ?b = "map (request_at Translate hola_es) [61..<66]"
  let ?w1 = "snd (serve env_demo up_detect_es ?first initial_world)"
  let ?w2 = "snd (serve_all env_demo up_detect_es ?a ?w1)"
  have h1: "hits ?w1 ?c = Some (1, 60000)"
    by (simp add: serve_hits request_at_def increment_def initial_world_def windowMs_def)
  have "\<forall>req\<in>set ?a. client req = ?c \<and> arrival req < 60000"
    by (auto simp: request_at_def)
  then have "hits ?w2 ?c = Some (1 + length ?a, 60000)"
    using serve_all_hits_window [OF h1] by blast
  then have "\<not> window_open ?w2 ?c (arrival (request_at Translate hola_es 60))"
    by (simp add: window_open_def request_at_def)
  moreover have "client (request_at Translate hola_es 60) = ?c"
    by (simp add: request_at_def)
  moreover have "\<forall>r\<in>set ?b. client r = ?c \<and>
      arrival r < arrival (request_at Translate hola_es 60) + windowMs"
    by (auto simp: request_at_def windowMs_def)
  ultimately have "\<forall>i<length (request_at Translate hola_es 60 # ?b).
      answered (fst (serve_all env_demo up_detect_es (request_at Translate hola_es 60 # ?b) ?w2) ! i)
        429 = (15 \<le> i)"
    by (rule serve_all_fresh)
  then have last: "\<not> answered
      (fst (serve_all env_demo up_detect_es (request_at Translate hola_es 60 # ?b) ?w2) ! 5) 429"
    by simp
  have "[60..<66] = 60 # [61..<66]"
    by (simp add: upt_rec)
  then have "late_burst = ?a @ (request_at Translate hola_es 60 # ?b)"
    by (simp add: late_burst_def del: upt_Suc)
  moreover have "Suc (length ?a) + 5 = 16"
    by simp
  ultimately have "\<not> answered
      (fst (serve_all env_demo up_detect_es (?first # late_burst) initial_world) ! 16) 429"
    using last
      serve_all_nth_later [of env_demo up_detect_es ?first ?a
        "request_at Translate hola_es 60 # ?b" initial_world 5]
    by (simp del: serve_all.simps upt_Suc)
  moreover have "length late_burst = 16"
    by (simp add: late_burst_def)
  moreover have "arrival (late_burst ! 15) - arrival (late_burst ! 0) < windowMs"
    by (simp add: late_burst_def nth_append request_at_def windowMs_def)
  moreover have "set (map path late_burst) = {Translate}"
    by (simp add: late_burst_def request_at_def)
  moreover have "set (map client late_burst) = {?c}"
    by (simp add: late_burst_def request_at_def)
  moreover have "all_answered
      (fst (serve_all env_demo up_detect_es (?first # late_burst) initial_world)) 200"
    by (simp add: all_answered_def late_burst_def upt_rec serve_def apiLimiter_def increment_def request_at_def
        initial_world_def handler_def translate_def hola_es_def translate_key_def cache_get_def
        io_emit_def NodeCache_get_def translate_try_def axios_post_def up_detect_es_def
        detect_es_def detected_language_def get_prop_def respond_def cache_set_def
        NodeCache_set_def max_requests_def windowMs_def stdTTL_def)
  ultimately show ?thesis by blast
qed

text \<open>
  C7, amended. A request of a client that already has fifteen or more requests counted in
  its open window is answered 429 with the configured \<^verbatim>\<open>{error, details}\<close> object, on
  every route, and its handler does not run. When a client with no open window sends
  requests to one route, all within a minute of the first, the first fifteen pass the
  quota and every later one, the sixteenth included, is answered 429 with that object.
\<close>

theorem requests_over_quota_get_429:
  "(hits w (client req) = Some (n, resetTime) \<and> arrival req < resetTime \<and> max_requests \<le> n \<longrightarrow>
      serve env up req w =
        (Inr \<lparr>statusCode = 429, json = limit_message\<rparr>,
         w\<lparr>clock := arrival req, hits := (hits w)(client req \<mapsto> (n + 1, resetTime))\<rparr>)) \<and>
   (\<not> window_open w c (arrival first) \<and> client first = c \<and> path first = p \<and>
    (\<forall>r\<in>set reqs. client r = c \<and> path r = p \<and> arrival r < arrival first + windowMs) \<longrightarrow>
      (\<forall>i<length (first # reqs).
         answered (fst (serve_all env up (first # reqs) w) ! i) 429 = (15 \<le> i)) \<and>
      (\<forall>i<length (first # reqs). 15 \<le> i \<longrightarrow>
         fst (serve_all env up (first # reqs) w) ! i =
           Inr \<lparr>statusCode = 429, json = limit_message\<rparr>))"
proof (intro conjI impI)
  assume a: "hits w (client req) = Some (n, resetTime) \<and> arrival req < resetTime \<and> max_requests \<le> n"
  then have inc: "increment (arrival req) (client req) (hits w) = (n + 1, resetTime)"
    by (simp add: increment_def)
  then show "serve env up req w =
      (Inr \<lparr>statusCode = 429, json = limit_message\<rparr>,
       w\<lparr>clock := arrival req, hits := (hits w)(client req \<mapsto> (n + 1, resetTime))\<rparr>)"
    using serve_limited [of req w env up] a by simp
next
  assume b: "\<not> window_open w c (arrival first) \<and> client first = c \<and> path first = p \<and>
    (\<forall>r\<in>set reqs. client r = c \<and> path r = p \<and> arrival r < arrival first + windowMs)"
  then show c: "\<forall>i<length (first # reqs).
      answered (fst (serve_all env up (first # reqs) w) ! i) 429 = (15 \<le> i)"
    using serve_all_fresh [of w c first reqs env up] by blast
  show "\<forall>i<length (first # reqs). 15 \<le> i \<longrightarrow>
      fst (serve_all env up (first # reqs) w) ! i = Inr \<lparr>statusCode = 429, json = limit_message\<rparr>"
    using c serve_all_limited [of "first # reqs" env up w] by blast
qed

theorem requests_over_quota_get_429_witness:
  "\<not> answered (fst (serve_all env_demo up_detect_es translate_burst initial_world) ! 14) 429 \<and>
   fst (serve_all env_demo up_detect_es translate_burst initial_world) ! 15 =
     Inr \<lparr>statusCode = 429,
          json = JObj [(''error'', JStr ''Too many requests, please try again after a minute.''),
                       (''details'', JStr ''API rate limits apply.'')]\<rparr>"
proof -
  have "\<not> window_open initial_world ''203.0.113.7'' (arrival (request_at Translate hola_es 0))"
    by (simp add: window_open_def initial_world_def)
  moreover have "\<forall>r\<in>set (map (request_at Translate hola_es) [1..<16]).
      client r = ''203.0.113.7'' \<and> path r = Translate \<and>
      arrival r < arrival (request_at Translate hola_es 0) + windowMs"
    by (auto simp: request_at_def windowMs_def)
  moreover have "length (request_at Translate hola_es 0 # map (request_at Translate hola_es) [1..<16]) = 16"
    by simp
  ultimately show ?thesis
    using requests_over_quota_get_429
        [where w = initial_world and c = "''203.0.113.7''" and p = Translate
          and first = "request_at Translate hola_es 0"
          and reqs = "map (request_at Translate hola_es) [1..<16]"
          and env = env_demo and up = up_detect_es]
    by (simp add: translate_burst_def request_at_def limit_message_def)
qed

text \<open>
  C8. The claim: without the key of the AI provider, the first use of
  \<^verbatim>\<open>/analyze-symptoms\<close> that misses the cache is answered 500, as for \<^verbatim>\<open>/summarize\<close>.
  The summarize handler tests the key and answers 500 without calling the provider
  (\<open>summarize_without_key\<close>). The symptoms handler has no such test: it posts the request
  with the header \<^verbatim>\<open>api-key\<close> undefined, and what it answers is decided by the
  provider alone (\<open>analyze_symptoms_ignores_key\<close>). Behind an endpoint that completes
  the chat, the answer is 200.
\<close>

theorem analyze_symptoms_without_key_answers_200:
  "AZURE_AI_API_KEY env_no_key = JUndefined \<and>
   fst (analyze_symptoms env_no_key up_completion cough initial_world) =
     Inr \<lparr>statusCode = 200, json = JObj [(''analysis'', JStr ''Rest and fluids.'')]\<rparr> \<and>
   posts (trace (snd (analyze_symptoms env_no_key up_completion cough initial_world))) =
     [(''http://gateway.internal/openai/deployments/gpt-4o-mini/chat/completions?api-version=2024-12-01-preview'',
       symptoms_body ''cough'')]"
  by (simp add: AZURE_AI_API_KEY_def env_no_key_def analyze_symptoms_def cough_def
      cache_get_def io_emit_def initial_world_def NodeCache_get_def analyze_try_def
      limiter_schedule_def retryRequest_default_def retryRequest.simps axios_post_def
      up_completion_def completion_200_def completion_text_def get_prop_def trim_def is_space_def respond_def cache_set_def completionsUrl_def
      AZURE_AI_ENDPOINT_def symptoms_key_def minTime_def)

theorem analyze_symptoms_without_key_answers_200_witness:
  "answered (fst (analyze_symptoms env_no_key up_completion cough initial_world)) 200 \<and>
   length (posts (trace (snd (analyze_symptoms env_no_key up_completion cough initial_world)))) = 1"
  using analyze_symptoms_without_key_answers_200 by simp

text \<open>
  C9. The claim: every error response, 400 and 429 included, comes with a
  \<^verbatim>\<open>failed\<close> status event. A \<^verbatim>\<open>POST /summarize\<close> with an empty body is answered 400
  and nothing is published.
\<close>

theorem no_failed_event_with_400_counterexample:
  "answered (fst (summarize env_demo up_completion (JObj []) initial_world)) 400 \<and>
   trace (snd (summarize env_demo up_completion (JObj []) initial_world)) = []"
  by (simp add: summarize_def respond_def initial_world_def)

text \<open>
  C9, amended. Whenever a handler answers 500, the last thing it did before was to
  publish the \<^verbatim>\<open>failed\<close> status event of its action. A handler that answers 400 has
  changed nothing, and a request answered 429 by the quota has published nothing.
\<close>

theorem failed_event_accompanies_500:
  "(answered (fst (translate env up b w)) 500 \<longrightarrow>
      (\<exists>es. trace (snd (translate env up b w)) =
         trace w @ es @ [Emit ''translate'' ''Translation failed.''])) \<and>
   (answered (fst (summarize env up b w)) 500 \<longrightarrow>
      (\<exists>es. trace (snd (summarize env up b w)) =
         trace w @ es @ [Emit ''summarize'' ''Summarization failed.''])) \<and>
   (answered (fst (analyze_symptoms env up b w)) 500 \<longrightarrow>
      (\<exists>es. trace (snd (analyze_symptoms env up b w)) =
         trace w @ es @ [Emit ''symptoms'' ''Analysis failed.''])) \<and>
   (answered (fst (handler r env up b w)) 400 \<longrightarrow> snd (handler r env up b w) = w) \<and>
   (answered (fst (serve env up req w)) 429 \<longrightarrow> trace (snd (serve env up req w)) = trace w)"
proof (intro conjI impI)
  assume "answered (fst (serve env up req w)) 429"
  then have "max_requests < fst (increment (arrival req) (client req) (hits w))"
    using serve_429 [of env up req w] by simp
  then show "trace (snd (serve env up req w)) = trace w"
    using serve_limited [of req w env up] by simp
qed (simp_all add: translate_500 summarize_500 analyze_500 handler_400)

theorem failed_event_accompanies_500_witness:
  "answered (fst (translate env_demo up_broken hola_es initial_world)) 500 \<and>
   last (trace (snd (translate env_demo up_broken hola_es initial_world))) =
     Emit ''translate'' ''Translation failed.'' \<and>
   answered (fst (summarize env_no_key up_completion hello initial_world)) 500 \<and>
   last (trace (snd (summarize env_no_key up_completion hello initial_world))) =
     Emit ''summarize'' ''Summarization failed.'' \<and>
   snd (handler Summarize env_demo up_completion (JObj []) initial_world) = initial_world"
proof -
  have t: "answered (fst (translate env_demo up_broken hola_es initial_world)) 500"
    by (simp add: translate_def hola_es_def translate_key_def cache_get_def
        io_emit_def initial_world_def NodeCache_get_def translate_try_def axios_post_def
        up_broken_def respond_def)
  have s: "answered (fst (summarize env_no_key up_completion hello initial_world)) 500"
    by (simp add: summarize_def hello_def summarize_key_def cache_get_def
        io_emit_def initial_world_def NodeCache_get_def AZURE_AI_API_KEY_def env_no_key_def respond_def)
  have h: "answered (fst (handler Summarize env_demo up_completion (JObj []) initial_world)) 400"
    by (simp add: handler_def summarize_def respond_def)
  have "\<exists>es. trace (snd (translate env_demo up_broken hola_es initial_world)) =
      trace initial_world @ es @ [Emit ''translate'' ''Translation failed.'']"
    using t failed_event_accompanies_500
        [where env = env_demo and up = up_broken and b = hola_es and w = initial_world]
    by blast
  then have t': "last (trace (snd (translate env_demo up_broken hola_es initial_world))) =
      Emit ''translate'' ''Translation failed.''"
    by auto
  have "\<exists>es. trace (snd (summarize env_no_key up_completion hello initial_world)) =
      trace initial_world @ es @ [Emit ''summarize'' ''Summarization failed.'']"
    using s failed_event_accompanies_500
        [where env = env_no_key and up = up_completion and b = hello and w = initial_world]
    by blast
  then have s': "last (trace (snd (summarize env_no_key up_completion hello initial_world))) =
      Emit ''summarize'' ''Summarization failed.''"
    by auto
  have h': "snd (handler Summarize env_demo up_completion (JObj []) initial_world) = initial_world"
    using h failed_event_accompanies_500
        [where env = env_demo and up = up_completion and b = "JObj []" and w = initial_world
          and r = Summarize]
    by blast
  show ?thesis using t s t' s' h' by simp
qed



end
